theory Spec2Isabelle
  imports Main "HOL-Library.List_Lexorder"
begin

section \<open>Values, exceptions and the environment context\<close>

text \<open>
  The development embeds \<^verbatim>\<open>lib/sqlalchemy/testing/exclusions.py\<close>.
  Python values that reach a version comparison are \<open>None\<close>, integers and (nested)
  tuples. An exception is a value carrying its class name, the text \<open>str(ex)\<close>, whether
  the class derives from \<open>Exception\<close> (what \<open>except Exception\<close> catches) and its
  traceback. The texts of the errors the sources raise are exact; those of the errors
  Python itself raises (\<open>TypeError\<close>, \<open>IndexError\<close>, \<open>KeyError\<close>, the
  \<open>ValueError\<close> of \<open>int\<close>) are abbreviated.
\<close>

datatype pyval = PNone | PInt int | PTuple "pyval list"

datatype pyexn = PyExn (exn_class: string) (exn_str: string)
                       (exn_is_Exception: bool) (exn_traceback: "string list")

definition AssertionError :: "string \<Rightarrow> pyexn" where
  "AssertionError msg = PyExn ''AssertionError'' msg True []"

definition KeyError :: "string \<Rightarrow> pyexn" where
  "KeyError k = PyExn ''KeyError'' ([CHR 0x27] @ k @ [CHR 0x27]) True []"

definition TypeError :: "string \<Rightarrow> pyexn" where
  "TypeError msg = PyExn ''TypeError'' msg True []"

definition ValueError :: "string \<Rightarrow> pyexn" where
  "ValueError msg = PyExn ''ValueError'' msg True []"

definition IndexError :: "string \<Rightarrow> pyexn" where
  "IndexError msg = PyExn ''IndexError'' msg True []"

text \<open>
  The environment context \<open>config\<close>: \<open>config.db\<close> is the engine, with its dialect
  \<open>name\<close>, its \<open>driver\<close>, the \<open>server_version_info\<close> tuple of its dialect (absent or
  \<open>None\<close> is \<open>None\<close> here) and the two names its URL reports. Python's \<open>None\<close>
  for the context is \<open>None :: config option\<close>.
\<close>

record engine =
  name :: string
  driver :: string
  server_version_info :: "int list option"
  url_driver_name :: string
  url_backend_name :: string

record config =
  db :: engine

subsection \<open>Comparison of values\<close>

text \<open>
  \<open>==\<close> and \<open>!=\<close> on \<open>None\<close>, integers and tuples are structural. The ordering
  operators compare two tuples at the first position where they differ, and by length
  when one is a prefix of the other; an integer against a tuple, or anything against
  \<open>None\<close>, raises \<open>TypeError\<close>.
\<close>

datatype cmpop = Lt | Le | Gt | Ge

fun int_cmp :: "cmpop \<Rightarrow> int \<Rightarrow> int \<Rightarrow> bool" where
  "int_cmp Lt a b = (a < b)"
| "int_cmp Le a b = (a \<le> b)"
| "int_cmp Gt a b = (a > b)"
| "int_cmp Ge a b = (a \<ge> b)"

fun len_cmp :: "cmpop \<Rightarrow> bool \<Rightarrow> bool \<Rightarrow> bool" where
  "len_cmp Lt lmore rmore = rmore"
| "len_cmp Le lmore rmore = (\<not> lmore)"
| "len_cmp Gt lmore rmore = lmore"
| "len_cmp Ge lmore rmore = (\<not> rmore)"

fun py_cmp :: "cmpop \<Rightarrow> pyval \<Rightarrow> pyval \<Rightarrow> pyexn + bool"
  and tuple_cmp :: "cmpop \<Rightarrow> pyval list \<Rightarrow> pyval list \<Rightarrow> pyexn + bool" where
  "py_cmp c (PInt a) (PInt b) = Inr (int_cmp c a b)"
| "py_cmp c (PTuple xs) (PTuple ys) = tuple_cmp c xs ys"
| "py_cmp c _ _ = Inl (TypeError ''comparison not supported between these types'')"
| "tuple_cmp c [] [] = Inr (len_cmp c False False)"
| "tuple_cmp c [] (y # ys) = Inr (len_cmp c False True)"
| "tuple_cmp c (x # xs) [] = Inr (len_cmp c True False)"
| "tuple_cmp c (x # xs) (y # ys) = (if x = y then tuple_cmp c xs ys else py_cmp c x y)"

text \<open>\<open>pair[i]\<close> for \<open>i\<close> in \<open>{0, 1}\<close>.\<close>

fun py_getitem :: "pyval \<Rightarrow> nat \<Rightarrow> pyexn + pyval" where
  "py_getitem (PTuple xs) i =
     (if i < length xs then Inr (xs ! i) else Inl (IndexError ''tuple index out of range''))"
| "py_getitem _ i = Inl (TypeError ''object is not subscriptable'')"

text \<open>\<open>operator.contains(a, b)\<close> is \<open>b in a\<close>.\<close>

fun operator_contains :: "pyval \<Rightarrow> pyval \<Rightarrow> pyexn + bool" where
  "operator_contains (PTuple xs) b = Inr (b \<in> set xs)"
| "operator_contains _ b = Inl (TypeError ''argument is not iterable'')"

definition between :: "pyval \<Rightarrow> pyval \<Rightarrow> pyexn + bool" where
  "between val pair =
     (case py_getitem pair 0 of
        Inl e \<Rightarrow> Inl e
      | Inr lo \<Rightarrow>
          (case py_cmp Ge val lo of
             Inl e \<Rightarrow> Inl e
           | Inr False \<Rightarrow> Inr False
           | Inr True \<Rightarrow>
               (case py_getitem pair 1 of
                  Inl e \<Rightarrow> Inl e
                | Inr hi \<Rightarrow> py_cmp Le val hi)))"

text \<open>The table \<open>SpecPredicate._ops\<close>.\<close>

definition ops :: "string \<Rightarrow> (pyval \<Rightarrow> pyval \<Rightarrow> pyexn + bool) option" where
  "ops k =
     (if k = ''<'' then Some (py_cmp Lt)
      else if k = ''>'' then Some (py_cmp Gt)
      else if k = ''=='' then Some (\<lambda>a b. Inr (a = b))
      else if k = ''!='' then Some (\<lambda>a b. Inr (a \<noteq> b))
      else if k = ''<='' then Some (py_cmp Le)
      else if k = ''>='' then Some (py_cmp Ge)
      else if k = ''in'' then Some operator_contains
      else if k = ''between'' then Some between
      else None)"

section \<open>Predicates\<close>

text \<open>
  The operator of a \<open>SpecPredicate\<close> is a key of the table \<open>_ops\<close> (\<open>ops\<close> above)
  or a callable (with the text \<open>str\<close> gives for it).
\<close>

datatype opval = OpName string | OpCallable string "pyval \<Rightarrow> pyval \<Rightarrow> pyexn + bool"

datatype predicate =
    BooleanPredicate bool string
  | SpecPredicate string "opval option" pyval "string option"
  | LambdaPredicate "config option \<Rightarrow> pyexn + bool" string
  | NotPredicate predicate "string option"
  | OrPredicate "predicate list" "string option"

text \<open>\<open>str.split(sep)\<close> for a one-character separator.\<close>

fun split_on :: "char \<Rightarrow> string \<Rightarrow> string list" where
  "split_on sep [] = [[]]"
| "split_on sep (c # cs) =
     (if c = sep then [] # split_on sep cs
      else (case split_on sep cs of
              [] \<Rightarrow> [[c]]
            | p # ps \<Rightarrow> (c # p) # ps))"

text \<open>
  \<open>_server_version(engine)\<close>: the dialect's \<open>server_version_info\<close>, or the empty tuple.
  Opening and closing the connection are taken to succeed.
\<close>

definition server_version :: "engine \<Rightarrow> pyval" where
  "server_version eng =
     (case server_version_info eng of
        None \<Rightarrow> PTuple []
      | Some v \<Rightarrow> PTuple (map PInt v))"

text \<open>
  \<open>dialect, driver = self.db.split("+")\<close> when \<open>"+"\<close> is in \<open>self.db\<close>, else
  \<open>self.db, None\<close>. The unpacking raises unless the split has two parts.
\<close>

definition split_db :: "string \<Rightarrow> pyexn + (string \<times> string option)" where
  "split_db d =
     (if CHR ''+'' \<in> set d then
        (case split_on (CHR ''+'') d of
           [dialect, drv] \<Rightarrow> Inr (dialect, Some drv)
         | _ \<Rightarrow> Inl (ValueError ''too many values to unpack (expected 2)''))
      else Inr (d, None))"

definition lookup_oper :: "opval \<Rightarrow> pyexn + (pyval \<Rightarrow> pyval \<Rightarrow> pyexn + bool)" where
  "lookup_oper opr =
     (case opr of
        OpCallable s f \<Rightarrow> Inr f
      | OpName k \<Rightarrow> (case ops k of None \<Rightarrow> Inl (KeyError k) | Some f \<Rightarrow> Inr f))"

text \<open>\<open>SpecPredicate.__init__\<close> stores its four arguments and does nothing else.\<close>

definition SpecPredicate_init ::
  "string \<Rightarrow> opval option \<Rightarrow> pyval \<Rightarrow> string option \<Rightarrow> pyexn + predicate" where
  "SpecPredicate_init d opr s description = Inr (SpecPredicate d opr s description)"

text \<open>\<open>SpecPredicate.__call__\<close>.\<close>

definition SpecPredicate_call ::
  "string \<Rightarrow> opval option \<Rightarrow> pyval \<Rightarrow> config option \<Rightarrow> pyexn + bool" where
  "SpecPredicate_call d opr s cfg =
     (case cfg of
        None \<Rightarrow> Inr False
      | Some c \<Rightarrow>
          (case split_db d of
             Inl e \<Rightarrow> Inl e
           | Inr (dialect, drv) \<Rightarrow>
               if dialect \<noteq> [] \<and> name (db c) \<noteq> dialect then Inr False
               else if drv \<noteq> None \<and> Some (driver (db c)) \<noteq> drv then Inr False
               else
                 (case opr of
                    None \<Rightarrow> Inr True
                  | Some ov \<Rightarrow>
                      if drv \<noteq> None
                      then Inl (AssertionError ''DBAPI version specs not supported yet'')
                      else
                        (case lookup_oper ov of
                           Inl e \<Rightarrow> Inl e
                         | Inr oper \<Rightarrow> oper (server_version (db c)) s))))"

text \<open>
  \<open>__call__\<close> of each predicate class; \<open>call_any\<close> is the loop of
  \<open>OrPredicate.__call__\<close>, which stops at the first member that holds.
\<close>

fun call :: "predicate \<Rightarrow> config option \<Rightarrow> pyexn + bool"
  and call_any :: "predicate list \<Rightarrow> config option \<Rightarrow> pyexn + bool" where
  "call (BooleanPredicate v description) cfg = Inr v"
| "call (SpecPredicate d opr s description) cfg = SpecPredicate_call d opr s cfg"
| "call (LambdaPredicate f description) cfg = f cfg"
| "call (NotPredicate p description) cfg =
     (case call p cfg of Inl e \<Rightarrow> Inl e | Inr b \<Rightarrow> Inr (\<not> b))"
| "call (OrPredicate ps description) cfg = call_any ps cfg"
| "call_any [] cfg = Inr False"
| "call_any (p # ps) cfg =
     (case call p cfg of
        Inl e \<Rightarrow> Inl e
      | Inr True \<Rightarrow> Inr True
      | Inr False \<Rightarrow> call_any ps cfg)"

section \<open>Rules\<close>

text \<open>
  The class \<open>compound\<close>: three sets. The elements of \<open>fails\<close> and \<open>skips\<close> are
  predicate objects, which Python hashes and compares by identity; the record leaves the
  type of these elements open. Rule objects are mutable and live in a store, a list
  indexed by reference, so that what \<open>add\<close> allocates and what it writes is explicit.
\<close>

record 'p compound =
  fails :: "'p set"
  skips :: "'p set"
  tags :: "string set"

type_synonym ref = nat
type_synonym 'p heap = "'p compound list"

text \<open>\<open>compound()\<close>: a new object with three empty sets.\<close>

definition compound_init :: "'p compound" where
  "compound_init = \<lparr>fails = {}, skips = {}, tags = {}\<rparr>"

definition new_compound :: "'p heap \<Rightarrow> 'p heap \<times> ref" where
  "new_compound h = (h @ [compound_init], length h)"

text \<open>\<open>obj.fails.update(s)\<close>, \<open>obj.skips.update(s)\<close>, \<open>obj.tags.update(s)\<close>.\<close>

definition update_fails :: "'p heap \<Rightarrow> ref \<Rightarrow> 'p set \<Rightarrow> 'p heap" where
  "update_fails h p s = h[p := (h ! p)\<lparr>fails := fails (h ! p) \<union> s\<rparr>]"

definition update_skips :: "'p heap \<Rightarrow> ref \<Rightarrow> 'p set \<Rightarrow> 'p heap" where
  "update_skips h p s = h[p := (h ! p)\<lparr>skips := skips (h ! p) \<union> s\<rparr>]"

definition update_tags :: "'p heap \<Rightarrow> ref \<Rightarrow> string set \<Rightarrow> 'p heap" where
  "update_tags h p s = h[p := (h ! p)\<lparr>tags := tags (h ! p) \<union> s\<rparr>]"

text \<open>
  The three updates \<open>add\<close> makes from one source object, in the source's order; each
  reads the source object from the store as it is at that moment.
\<close>

definition add_from :: "'p heap \<Rightarrow> ref \<Rightarrow> ref \<Rightarrow> 'p heap" where
  "add_from h copy other =
     (let h1 = update_fails h copy (fails (h ! other));
          h2 = update_skips h1 copy (skips (h1 ! other));
          h3 = update_tags h2 copy (tags (h2 ! other))
      in h3)"

text \<open>
  \<open>compound.add(self, *others)\<close>. A reference in Python always points to a live
  object; the guard says so for the store, and \<open>None\<close> stands for a call that Python
  cannot make.
\<close>

definition add :: "'p heap \<Rightarrow> ref \<Rightarrow> ref list \<Rightarrow> ('p heap \<times> ref) option" where
  "add h self others =
     (if self < length h \<and> (\<forall>other \<in> set others. other < length h) then
        (let (h0, copy) = new_compound h;
             h1 = add_from h0 copy self
         in Some (foldl (\<lambda>hh other. add_from hh copy other) h1 others, copy))
      else None)"

text \<open>
  \<open>compound.include_test\<close>. An empty set is false in Python, and \<open>bool\<close> of the
  whole expression is taken.
\<close>

definition include_test :: "'p compound \<Rightarrow> string set \<Rightarrow> string set \<Rightarrow> bool" where
  "include_test self include_tags exclude_tags =
     (tags self \<inter> exclude_tags = {}
      \<and> (include_tags = {} \<or> tags self \<inter> include_tags \<noteq> {}))"

text \<open>
  \<open>compound.enabled_for_config\<close>, on the sequence in which the set
  \<open>self.skips.union(self.fails)\<close> is iterated. Python fixes no order for it, so the
  sequence is an argument.
\<close>

fun enabled_for_config :: "predicate list \<Rightarrow> config option \<Rightarrow> pyexn + bool" where
  "enabled_for_config [] cfg = Inr True"
| "enabled_for_config (p # ps) cfg =
     (case call p cfg of
        Inl e \<Rightarrow> Inl e
      | Inr True \<Rightarrow> Inr False
      | Inr False \<Rightarrow> enabled_for_config ps cfg)"

section \<open>Descriptions\<close>

text \<open>\<open>str\<close> of an integer, of a value and of an operator; \<open>sep.join(xs)\<close>.\<close>

fun str_nat :: "nat \<Rightarrow> string" where
  "str_nat n =
     (if n < 10 then [''0123456789'' ! n]
      else str_nat (n div 10) @ [''0123456789'' ! (n mod 10)])"

declare str_nat.simps [simp del]

definition str_int :: "int \<Rightarrow> string" where
  "str_int i = (if i < 0 then CHR ''-'' # str_nat (nat (- i)) else str_nat (nat i))"

fun join :: "string \<Rightarrow> string list \<Rightarrow> string" where
  "join sep [] = []"
| "join sep [x] = x"
| "join sep (x # y # ys) = x @ sep @ join sep (y # ys)"

fun py_str :: "pyval \<Rightarrow> string" where
  "py_str PNone = ''None''"
| "py_str (PInt i) = str_int i"
| "py_str (PTuple xs) =
     (case xs of
        [x] \<Rightarrow> ''('' @ py_str x @ '',)''
      | _ \<Rightarrow> ''('' @ join '', '' (map py_str xs) @ '')'')"

fun str_op :: "opval \<Rightarrow> string" where
  "str_op (OpName k) = k"
| "str_op (OpCallable s f) = s"

text \<open>
  \<open>description % mapping\<close>, Python's string formatting with a dictionary on the right.
  Formatting reads the string from left to right. The function below follows it through
  plain text, \<open>%%\<close> and \<open>%(key)s\<close>, the key being looked up when its closing
  parenthesis is read, and through the errors of a string that ends inside a conversion;
  it gives \<open>None\<close> as soon as it meets anything else (another conversion type, a flag,
  a width, a conversion without key, a parenthesis inside a key).
\<close>

datatype fstate = Text | Percent | Key string | Conv string

fun prepend :: "string \<Rightarrow> pyexn + string \<Rightarrow> pyexn + string" where
  "prepend s (Inl e) = Inl e"
| "prepend s (Inr t) = Inr (s @ t)"

fun prepend_opt :: "string \<Rightarrow> (pyexn + string) option \<Rightarrow> (pyexn + string) option" where
  "prepend_opt s None = None"
| "prepend_opt s (Some r) = Some (prepend s r)"

fun py_percent_go ::
  "fstate \<Rightarrow> (string \<times> string) list \<Rightarrow> string \<Rightarrow> (pyexn + string) option" where
  "py_percent_go Text m [] = Some (Inr [])"
| "py_percent_go Text m (c # cs) =
     (if c = CHR ''%'' then py_percent_go Percent m cs
      else prepend_opt [c] (py_percent_go Text m cs))"
| "py_percent_go Percent m [] = Some (Inl (ValueError ''incomplete format''))"
| "py_percent_go Percent m (c # cs) =
     (if c = CHR ''%'' then prepend_opt ''%'' (py_percent_go Text m cs)
      else if c = CHR ''('' then py_percent_go (Key []) m cs
      else None)"
| "py_percent_go (Key k) m [] = Some (Inl (ValueError ''incomplete format key''))"
| "py_percent_go (Key k) m (c # cs) =
     (if c = CHR '')'' then
        (case map_of m k of
           None \<Rightarrow> Some (Inl (KeyError k))
         | Some v \<Rightarrow> py_percent_go (Conv v) m cs)
      else if c = CHR ''('' then None
      else py_percent_go (Key (k @ [c])) m cs)"
| "py_percent_go (Conv v) m [] = Some (Inl (ValueError ''incomplete format''))"
| "py_percent_go (Conv v) m (c # cs) =
     (if c = CHR ''s'' then prepend_opt v (py_percent_go Text m cs)
      else None)"

text \<open>
  The operator \<open>%\<close> belongs to Python, not to the sources. Where the function above
  gives \<open>None\<close>, the result is that of the operator itself, which is a parameter
  \<open>pf\<close> of everything that formats a description: nothing is said about what it
  returns.
\<close>

type_synonym formatter = "string \<Rightarrow> (string \<times> string) list \<Rightarrow> pyexn + string"

definition py_percent ::
  "formatter \<Rightarrow> string \<Rightarrow> (string \<times> string) list \<Rightarrow> pyexn + string" where
  "py_percent pf fmt m =
     (case py_percent_go Text m fmt of
        None \<Rightarrow> pf fmt m
      | Some r \<Rightarrow> r)"

text \<open>
  A formatter to put in the parameter's place where a run is computed; the descriptions
  of those runs stay within what \<open>py_percent_go\<close> follows, so it is never consulted.
\<close>

definition sample_formatter :: formatter where
  "sample_formatter fmt m = Inr fmt"

text \<open>The attribute \<open>description\<close> of each predicate class.\<close>

fun description :: "predicate \<Rightarrow> string option" where
  "description (BooleanPredicate v ds) = Some ds"
| "description (SpecPredicate d opr s ds) = ds"
| "description (LambdaPredicate f ds) = Some ds"
| "description (NotPredicate p ds) = ds"
| "description (OrPredicate ps ds) = ds"

definition doesnt_support :: string where
  "doesnt_support = ''doesn'' @ [CHR 0x27] @ ''t support''"

text \<open>
  \<open>Predicate._format_description\<close>. The predicate is evaluated first; with \<open>negate\<close>
  set, the source replaces the result by \<open>not negate\<close>.
\<close>

definition format_description ::
  "formatter \<Rightarrow> predicate \<Rightarrow> config option \<Rightarrow> bool \<Rightarrow> pyexn + string" where
  "format_description pf self cfg negate =
     (case call self cfg of
        Inl e \<Rightarrow> Inl e
      | Inr b \<Rightarrow>
          (let flag = (if negate then \<not> negate else b) in
           case description self of
             None \<Rightarrow> Inl (TypeError ''unsupported operand type(s) for %'')
           | Some ds \<Rightarrow>
               py_percent pf ds
                 [(''driver'',
                     case cfg of Some c \<Rightarrow> url_driver_name (db c) | None \<Rightarrow> ''<no driver>''),
                  (''database'',
                     case cfg of Some c \<Rightarrow> url_backend_name (db c) | None \<Rightarrow> ''<no database>''),
                  (''doesnt_support'', if flag then doesnt_support else ''does support''),
                  (''does_support'', if flag then ''does support'' else doesnt_support)]))"

text \<open>
  \<open>_as_string\<close> of each predicate class, with \<open>OrPredicate._eval_str\<close> and
  \<open>OrPredicate._negation_str\<close> in place; \<open>as_strings\<close> is the generator that
  \<open>join\<close> consumes. A description that is \<open>None\<close> or empty is false in Python.
\<close>

fun as_string ::
  "formatter \<Rightarrow> predicate \<Rightarrow> config option \<Rightarrow> bool \<Rightarrow> pyexn + string"
  and as_strings ::
  "formatter \<Rightarrow> predicate list \<Rightarrow> config option \<Rightarrow> bool \<Rightarrow> pyexn + string list" where
  "as_string pf (BooleanPredicate v ds) cfg negate =
     format_description pf (BooleanPredicate v ds) cfg negate"
| "as_string pf (SpecPredicate d opr s ds) cfg negate =
     (if ds \<noteq> None then format_description pf (SpecPredicate d opr s ds) cfg False
      else
        (case opr of
           None \<Rightarrow> Inr (if negate then ''not '' @ d else d)
         | Some ov \<Rightarrow>
             Inr (if negate then ''not '' @ d @ '' '' @ str_op ov @ '' '' @ py_str s
                  else d @ '' '' @ str_op ov @ '' '' @ py_str s)))"
| "as_string pf (LambdaPredicate f ds) cfg negate =
     format_description pf (LambdaPredicate f ds) cfg False"
| "as_string pf (NotPredicate p ds) cfg negate =
     (if ds \<noteq> None \<and> ds \<noteq> Some []
      then format_description pf (NotPredicate p ds) cfg (\<not> negate)
      else as_string pf p cfg (\<not> negate))"
| "as_string pf (OrPredicate ps ds) cfg negate =
     (if negate then
        (if ds \<noteq> None
         then prepend ''Not '' (format_description pf (OrPredicate ps ds) cfg False)
         else (case as_strings pf ps cfg True of
                 Inl e \<Rightarrow> Inl e
               | Inr ss \<Rightarrow> Inr (join '' and '' ss)))
      else
        (if ds \<noteq> None
         then format_description pf (OrPredicate ps ds) cfg False
         else (case as_strings pf ps cfg False of
                 Inl e \<Rightarrow> Inl e
               | Inr ss \<Rightarrow> Inr (join '' or '' ss))))"
| "as_strings pf [] cfg negate = Inr []"
| "as_strings pf (p # ps) cfg negate =
     (case as_string pf p cfg negate of
        Inl e \<Rightarrow> Inl e
      | Inr s \<Rightarrow>
          (case as_strings pf ps cfg negate of
             Inl e \<Rightarrow> Inl e
           | Inr ss \<Rightarrow> Inr (s # ss)))"

section \<open>The enforcement wrapper\<close>

text \<open>
  What the wrapper does beyond its result is a trace: \<open>Called\<close> when it invokes the
  wrapped function, \<open>Printed\<close> for a line it prints. The wrapped function is given by
  the result of invoking it: the exception it raises or the value it returns. A run of
  the wrapper ends by returning a value (\<open>None\<close> is Python's \<open>None\<close>), by the skip
  signal, or by raising.
\<close>

datatype event = Called | Printed string

datatype 'v outcome = Returned "'v option" | Skipped string | Raised pyexn

text \<open>
  Modelled from the spec: \<open>config.skip_test(msg)\<close>, of the module \<open>config\<close> that is not
  part of the sources. The spec has it signal the outcome \<open>Skipped\<close> carrying a reason
  string, consumed by the harness; it does not return to the wrapper.
\<close>

definition skip_test :: "string \<Rightarrow> 'v outcome" where
  "skip_test msg = Skipped msg"

text \<open>
  Modelled from the spec: \<open>util.raise_(ex, with_traceback=tb)\<close>, of the module \<open>util\<close>
  that is not part of the sources. The spec has it re-raise the given error, with the
  stack context passed to it.
\<close>

definition util_raise :: "pyexn \<Rightarrow> string list \<Rightarrow> pyexn + 'a" where
  "util_raise ex tb = Inl (PyExn (exn_class ex) (exn_str ex) (exn_is_Exception ex) tb)"

text \<open>
  The loop over \<open>self.skips\<close> that opens \<open>compound._do\<close>, on the sequence in which the
  set is iterated. \<open>test_name\<close> is what \<open>config.get_current_test_name()\<close> returns.
  The result is the skip message of the first predicate that holds, if there is one.
\<close>

fun skip_loop ::
  "formatter \<Rightarrow> config option \<Rightarrow> string \<Rightarrow> predicate list \<Rightarrow> pyexn + string option" where
  "skip_loop pf cfg test_name [] = Inr None"
| "skip_loop pf cfg test_name (skip # rest) =
     (case call skip cfg of
        Inl e \<Rightarrow> Inl e
      | Inr True \<Rightarrow>
          (case as_string pf skip cfg False of
             Inl e \<Rightarrow> Inl e
           | Inr s \<Rightarrow> Inr (Some ([CHR 0x27] @ test_name @ [CHR 0x27] @ '' : '' @ s)))
      | Inr False \<Rightarrow> skip_loop pf cfg test_name rest)"

text \<open>
  \<open>compound._expect_failure\<close> under Python 3 (\<open>util.py2k\<close> false), on the sequence in
  which \<open>self.fails\<close> is iterated. \<open>tb\<close> is \<open>sys.exc_info()[2]\<close>, the traceback of
  the exception being handled.
\<close>

fun expect_failure ::
  "formatter \<Rightarrow> config option \<Rightarrow> pyexn \<Rightarrow> string list \<Rightarrow> string \<Rightarrow> predicate list
   \<Rightarrow> (pyexn + unit) \<times> event list" where
  "expect_failure pf cfg ex tb nm [] = (util_raise ex tb, [])"
| "expect_failure pf cfg ex tb nm (fail # rest) =
     (case call fail cfg of
        Inl e \<Rightarrow> (Inl e, [])
      | Inr True \<Rightarrow>
          (case as_string pf fail cfg False of
             Inl e \<Rightarrow> (Inl e, [])
           | Inr s \<Rightarrow>
               (Inr (), [Printed (nm @ '' failed as expected ('' @ s @ ''): ''
                                     @ exn_str ex @ '' '')]))
      | Inr False \<Rightarrow> expect_failure pf cfg ex tb nm rest)"

text \<open>
  \<open>compound._expect_success\<close>. The message joins \<open>fail._as_string(config)\<close> for
  \<open>fail\<close> over the whole of \<open>self.fails\<close>.
\<close>

fun success_loop ::
  "formatter \<Rightarrow> config option \<Rightarrow> string \<Rightarrow> predicate list \<Rightarrow> predicate list
   \<Rightarrow> pyexn + unit" where
  "success_loop pf cfg nm all_fails [] = Inr ()"
| "success_loop pf cfg nm all_fails (fail # rest) =
     (case call fail cfg of
        Inl e \<Rightarrow> Inl e
      | Inr True \<Rightarrow>
          (case as_strings pf all_fails cfg False of
             Inl e \<Rightarrow> Inl e
           | Inr ss \<Rightarrow>
               Inl (AssertionError
                      (''Unexpected success for '' @ [CHR 0x27] @ nm @ [CHR 0x27]
                       @ '' ('' @ join '' and '' ss @ '')'')))
      | Inr False \<Rightarrow> success_loop pf cfg nm all_fails rest)"

definition expect_success ::
  "formatter \<Rightarrow> config option \<Rightarrow> string \<Rightarrow> predicate list \<Rightarrow> pyexn + unit" where
  "expect_success pf cfg nm fails_seq =
     (if fails_seq = [] then Inr () else success_loop pf cfg nm fails_seq fails_seq)"

text \<open>
  \<open>compound._do\<close>. \<open>skips_seq\<close> and \<open>fails_seq\<close> are the sequences in which the two
  sets are iterated, \<open>fn_name\<close> is \<open>fn.__name__\<close> and \<open>fn\<close> the result of invoking
  the wrapped function. \<open>except Exception\<close> catches the exceptions derived from
  \<open>Exception\<close>; after an expected failure the method returns \<open>None\<close>.
\<close>

definition compound_do ::
  "formatter \<Rightarrow> config option \<Rightarrow> string \<Rightarrow> string \<Rightarrow> pyexn + 'v
   \<Rightarrow> predicate list \<Rightarrow> predicate list
   \<Rightarrow> 'v outcome \<times> event list" where
  "compound_do pf cfg test_name fn_name fn skips_seq fails_seq =
     (case skip_loop pf cfg test_name skips_seq of
        Inl e \<Rightarrow> (Raised e, [])
      | Inr (Some msg) \<Rightarrow> (skip_test msg, [])
      | Inr None \<Rightarrow>
          (case fn of
             Inl ex \<Rightarrow>
               if exn_is_Exception ex then
                 (case expect_failure pf cfg ex (exn_traceback ex) fn_name fails_seq of
                    (Inl e, out) \<Rightarrow> (Raised e, Called # out)
                  | (Inr u, out) \<Rightarrow> (Returned None, Called # out))
               else (Raised ex, [Called])
           | Inr return_value \<Rightarrow>
               (case expect_success pf cfg fn_name fails_seq of
                  Inl e \<Rightarrow> (Raised e, [Called])
                | Inr u \<Rightarrow> (Returned (Some return_value), [Called]))))"

text \<open>
  The message the spec describes for an unexpected success: it names the descriptions
  of the fail-predicates that match.
\<close>

definition spec_unexpected_success ::
  "formatter \<Rightarrow> config option \<Rightarrow> string \<Rightarrow> predicate list \<Rightarrow> pyexn + unit" where
  "spec_unexpected_success pf cfg nm fails_seq =
     (case as_strings pf (filter (\<lambda>f. call f cfg = Inr True) fails_seq) cfg False of
        Inl e \<Rightarrow> Inl e
      | Inr ss \<Rightarrow>
          Inl (AssertionError
                 (''Unexpected success for '' @ [CHR 0x27] @ nm @ [CHR 0x27]
                  @ '' ('' @ join '' and '' ss @ '')'')))"

section \<open>The builder functions\<close>

text \<open>
  What \<open>Predicate.as_predicate\<close> dispatches on: a rule (given by the sequence in which
  its \<open>skips.union(fails)\<close> is iterated), a predicate, a list or set (in iteration
  order), a tuple of the arguments of \<open>SpecPredicate\<close> (a missing trailing argument is
  its default \<open>None\<close>), a string, a callable, or anything else (with its \<open>str\<close>).
  A callable takes no argument or one, and carries its \<open>__doc__\<close>.
\<close>

datatype pyfun =
    PyFun0 "pyexn + bool" "string option"
  | PyFun1 "config option \<Rightarrow> pyexn + bool" "string option"

datatype descriptor =
    DCompound "predicate list"
  | DPredicate predicate
  | DList "descriptor list"
  | DTuple string "opval option" pyval "string option"
  | DString string
  | DCallable pyfun
  | DOther string

definition truthy :: "string option \<Rightarrow> bool" where
  "truthy ds = (ds \<noteq> None \<and> ds \<noteq> Some [])"

text \<open>\<open>BooleanPredicate.__init__\<close>; \<open>str\<close> of a boolean.\<close>

definition BooleanPredicate_init :: "bool \<Rightarrow> string option \<Rightarrow> predicate" where
  "BooleanPredicate_init v ds =
     BooleanPredicate v
       (if truthy ds then the ds else ''boolean '' @ (if v then ''True'' else ''False''))"

text \<open>
  \<open>LambdaPredicate.__init__\<close>: a function without arguments is wrapped into one that
  ignores the context.
\<close>

fun LambdaPredicate_init :: "pyfun \<Rightarrow> string option \<Rightarrow> predicate" where
  "LambdaPredicate_init (PyFun0 r doc) ds =
     LambdaPredicate (\<lambda>cfg. r)
       (if truthy ds then the ds else if truthy doc then the doc else ''custom function'')"
| "LambdaPredicate_init (PyFun1 f doc) ds =
     LambdaPredicate f
       (if truthy ds then the ds else if truthy doc then the doc else ''custom function'')"

text \<open>\<open>predicate.description = description\<close>.\<close>

fun set_description :: "predicate \<Rightarrow> string option \<Rightarrow> predicate" where
  "set_description (BooleanPredicate v ds) new = BooleanPredicate v (the new)"
| "set_description (SpecPredicate d opr s ds) new = SpecPredicate d opr s new"
| "set_description (LambdaPredicate f ds) new = LambdaPredicate f (the new)"
| "set_description (NotPredicate p ds) new = NotPredicate p new"
| "set_description (OrPredicate ps ds) new = OrPredicate ps new"

subsection \<open>Strings with version-comparison syntax\<close>

text \<open>
  The pattern is
  \<^verbatim>\<open>([\+\w]+)\s*(?:(>=|==|!=|<=|<|>)\s*([\d\.]+))?\<close>,
  matched at the start of the string. Characters are ASCII here. The first group and the
  runs of white space are maximal: no operator starts with a character of the first
  group or with white space, so giving characters back never helps. The alternatives
  of the operator are tried in order, each with the rest of the optional group.
\<close>

definition is_word :: "char \<Rightarrow> bool" where
  "is_word c =
     (c \<in> set ''abcdefghijklmnopqrstuvwxyzABCDEFGHIJKLMNOPQRSTUVWXYZ0123456789_'')"

definition is_space :: "char \<Rightarrow> bool" where
  "is_space c =
     (c \<in> set [CHR 0x09, CHR 0x0A, CHR 0x0B, CHR 0x0C, CHR 0x0D,
                CHR 0x1C, CHR 0x1D, CHR 0x1E, CHR 0x1F, CHR 0x20])"

definition is_digit :: "char \<Rightarrow> bool" where
  "is_digit c = (c \<in> set ''0123456789'')"

fun strip_prefix :: "string \<Rightarrow> string \<Rightarrow> string option" where
  "strip_prefix [] s = Some s"
| "strip_prefix (p # ps) [] = None"
| "strip_prefix (p # ps) (c # cs) = (if p = c then strip_prefix ps cs else None)"

definition match_version :: "string \<Rightarrow> string option" where
  "match_version s =
     (let g = takeWhile (\<lambda>c. is_digit c \<or> c = CHR ''.'') (dropWhile is_space s)
      in if g = [] then None else Some g)"

fun first_alt :: "string list \<Rightarrow> string \<Rightarrow> (string \<times> string) option" where
  "first_alt [] s = None"
| "first_alt (k # ks) s =
     (case strip_prefix k s of
        None \<Rightarrow> first_alt ks s
      | Some r \<Rightarrow>
          (case match_version r of
             None \<Rightarrow> first_alt ks s
           | Some g \<Rightarrow> Some (k, g)))"

text \<open>The three groups of the match, or \<open>None\<close> when the pattern does not match.\<close>

definition match_tokens :: "string \<Rightarrow> (string \<times> string option \<times> string option) option" where
  "match_tokens s =
     (let g1 = takeWhile (\<lambda>c. c = CHR ''+'' \<or> is_word c) s;
          rest = dropWhile is_space (dropWhile (\<lambda>c. c = CHR ''+'' \<or> is_word c) s)
      in if g1 = [] then None
         else (case first_alt [''>='', ''=='', ''!='', ''<='', ''<'', ''>''] rest of
                 None \<Rightarrow> Some (g1, None, None)
               | Some (k, g3) \<Rightarrow> Some (g1, Some k, Some g3)))"

text \<open>\<open>int(d)\<close> for a string of decimal digits; the empty string is no literal.\<close>

definition py_int :: "string \<Rightarrow> pyexn + int" where
  "py_int ds =
     (if ds = [] then Inl (ValueError ''invalid literal for int() with base 10'')
      else Inr (foldl (\<lambda>a c. 10 * a + (of_char c - 48)) 0 ds))"

fun py_ints :: "string list \<Rightarrow> pyexn + int list" where
  "py_ints [] = Inr []"
| "py_ints (d # ds) =
     (case py_int d of
        Inl e \<Rightarrow> Inl e
      | Inr i \<Rightarrow> (case py_ints ds of Inl e \<Rightarrow> Inl e | Inr is \<Rightarrow> Inr (i # is)))"

definition as_predicate_string :: "string \<Rightarrow> string option \<Rightarrow> pyexn + predicate" where
  "as_predicate_string s ds =
     (case match_tokens s of
        None \<Rightarrow>
          Inl (ValueError (''Couldn'' @ [CHR 0x27] @ ''t locate DB name in predicate: ''
                           @ [CHR 0x27] @ s @ [CHR 0x27]))
      | Some (d, opr, g3) \<Rightarrow>
          (case g3 of
             None \<Rightarrow> SpecPredicate_init d (map_option OpName opr) PNone ds
           | Some v \<Rightarrow>
               (case py_ints (split_on (CHR ''.'') v) of
                  Inl e \<Rightarrow> Inl e
                | Inr is \<Rightarrow>
                    SpecPredicate_init d (map_option OpName opr) (PTuple (map PInt is)) ds)))"

subsection \<open>Normalisation and the builders\<close>

text \<open>
  \<open>Predicate.as_predicate\<close>; \<open>as_predicates\<close> is the list comprehension over the
  members of a list or set, each normalised without a description.
\<close>

fun as_predicate :: "descriptor \<Rightarrow> string option \<Rightarrow> pyexn + predicate"
  and as_predicates :: "descriptor list \<Rightarrow> string option \<Rightarrow> pyexn + predicate list" where
  "as_predicate (DCompound ps) ds =
     Inr (LambdaPredicate_init (PyFun1 (enabled_for_config ps) None) ds)"
| "as_predicate (DPredicate p) ds =
     (if truthy ds \<and> description p = None then Inr (set_description p ds) else Inr p)"
| "as_predicate (DList xs) ds =
     (case as_predicates xs None of
        Inl e \<Rightarrow> Inl e
      | Inr ps \<Rightarrow> Inr (OrPredicate ps ds))"
| "as_predicate (DTuple d opr s dd) ds = SpecPredicate_init d opr s dd"
| "as_predicate (DString s) ds = as_predicate_string s ds"
| "as_predicate (DCallable f) ds = Inr (LambdaPredicate_init f ds)"
| "as_predicate (DOther s) ds = Inl (AssertionError (''unknown predicate type: '' @ s))"
| "as_predicates [] ds = Inr []"
| "as_predicates (x # xs) ds =
     (case as_predicate x ds of
        Inl e \<Rightarrow> Inl e
      | Inr p \<Rightarrow>
          (case as_predicates xs ds of
             Inl e \<Rightarrow> Inl e
           | Inr ps \<Rightarrow> Inr (p # ps)))"

text \<open>\<open>skip_if\<close> and \<open>only_if\<close>; each returns a new rule.\<close>

definition skip_if :: "descriptor \<Rightarrow> string option \<Rightarrow> pyexn + predicate compound" where
  "skip_if x reason =
     (case as_predicate x reason of
        Inl e \<Rightarrow> Inl e
      | Inr pred \<Rightarrow> Inr (compound_init\<lparr>skips := insert pred (skips compound_init)\<rparr>))"

definition only_if :: "descriptor \<Rightarrow> string option \<Rightarrow> pyexn + predicate compound" where
  "only_if x reason =
     (case as_predicate x None of
        Inl e \<Rightarrow> Inl e
      | Inr p \<Rightarrow> skip_if (DPredicate (NotPredicate p None)) reason)"

text \<open>\<open>fails_if\<close> and \<open>succeeds_if\<close>, the same for the set \<open>fails\<close>.\<close>

definition fails_if :: "descriptor \<Rightarrow> string option \<Rightarrow> pyexn + predicate compound" where
  "fails_if x reason =
     (case as_predicate x reason of
        Inl e \<Rightarrow> Inl e
      | Inr pred \<Rightarrow> Inr (compound_init\<lparr>fails := insert pred (fails compound_init)\<rparr>))"

definition succeeds_if :: "descriptor \<Rightarrow> string option \<Rightarrow> pyexn + predicate compound" where
  "succeeds_if x reason =
     (case as_predicate x None of
        Inl e \<Rightarrow> Inl e
      | Inr p \<Rightarrow> fails_if (DPredicate (NotPredicate p None)) reason)"

text \<open>\<open>fails_on(db, reason)\<close> and \<open>skip(db, reason)\<close>.\<close>

definition fails_on :: "descriptor \<Rightarrow> string option \<Rightarrow> pyexn + predicate compound" where
  "fails_on x reason = fails_if x reason"

definition skip :: "descriptor \<Rightarrow> string option \<Rightarrow> pyexn + predicate compound" where
  "skip x reason = skip_if x reason"

text \<open>\<open>db_spec(*dbs)\<close>.\<close>

definition db_spec :: "descriptor list \<Rightarrow> pyexn + predicate" where
  "db_spec dbs =
     (case as_predicates dbs None of
        Inl e \<Rightarrow> Inl e
      | Inr ps \<Rightarrow> Inr (OrPredicate ps None))"

text \<open>
  \<open>only_on(dbs, reason)\<close>. The function \<open>util.to_list\<close> is not part of the sources:
  the argument \<open>dbs\<close> here is the list \<open>util.to_list(dbs)\<close> yields.
\<close>

definition only_on :: "descriptor list \<Rightarrow> string option \<Rightarrow> pyexn + predicate compound" where
  "only_on dbs reason =
     (case as_predicates dbs reason of
        Inl e \<Rightarrow> Inl e
      | Inr ps \<Rightarrow> only_if (DPredicate (OrPredicate ps None)) None)"

text \<open>\<open>fails_on_everything_except(*dbs)\<close>.\<close>

definition fails_on_everything_except :: "descriptor list \<Rightarrow> pyexn + predicate compound" where
  "fails_on_everything_except dbs =
     (case as_predicates dbs None of
        Inl e \<Rightarrow> Inl e
      | Inr ps \<Rightarrow> succeeds_if (DPredicate (OrPredicate ps None)) None)"

text \<open>\<open>against(config, *queries)\<close>.\<close>

definition against :: "config option \<Rightarrow> descriptor list \<Rightarrow> pyexn + bool" where
  "against cfg queries =
     (if queries = [] then Inl (AssertionError ''no queries sent!'')
      else (case as_predicates queries None of
              Inl e \<Rightarrow> Inl e
            | Inr ps \<Rightarrow> call (OrPredicate ps None) cfg))"

section \<open>Tag filtering\<close>

text \<open>
  C5. For every rule and all tag sets, the test is included iff its tags do not
  intersect \<open>exclude_tags\<close> and (\<open>include_tags\<close> is empty or its tags intersect
  \<open>include_tags\<close>); with no include tags and \<open>exclude_tags = {"slow"}\<close>, a test
  tagged \<open>{"slow"}\<close> is excluded and a test without tags is included.
\<close>

theorem include_test_iff:
  "(include_test r inc exc \<longleftrightarrow>
      tags r \<inter> exc = {} \<and> (inc = {} \<or> tags r \<inter> inc \<noteq> {}))
   \<and> \<not> include_test (r\<lparr>tags := {''slow''}\<rparr>) {} {''slow''}
   \<and> include_test (r\<lparr>tags := {}\<rparr>) {} {''slow''}"
  by (auto simp add: include_test_def)

theorem include_test_iff_witness:
  "include_test \<lparr>fails = {}, skips = {BooleanPredicate True ''marked as skip''},
                 tags = {''fast'', ''db''}\<rparr> {''fast''} {''slow''}
   \<and> \<not> include_test \<lparr>fails = {}, skips = {BooleanPredicate True ''marked as skip''},
                   tags = {''slow''}\<rparr> {} {''slow''}"
  using include_test_iff [of "\<lparr>fails = {}, skips = {BooleanPredicate True ''marked as skip''},
                               tags = {''fast'', ''db''}\<rparr>" "{''fast''}" "{''slow''}"]
        include_test_iff [of "\<lparr>fails = {}, skips = {BooleanPredicate True ''marked as skip''},
                               tags = {''slow''}\<rparr>" "{}" "{''slow''}"]
  by simp

text \<open>
  C3, as stated, fails: with \<open>include_tags = {"fast"}\<close> a test without tags is not
  tagged \<open>{"slow"}\<close> and yet is excluded.
\<close>

theorem include_fast_counterexample:
  "\<not> include_test \<lparr>fails = {} :: predicate set, skips = {}, tags = {}\<rparr> {''fast''} {}"
  by (simp add: include_test_def)

text \<open>
  C3, amended. With \<open>include_tags = {"fast"}\<close> and no exclude tags, a test is included
  iff \<open>"fast"\<close> is among its tags: a test tagged \<open>{"slow"}\<close> is excluded and a test
  tagged \<open>{"fast"}\<close> is included.
\<close>

theorem include_fast_iff:
  "(include_test r {''fast''} {} \<longleftrightarrow> ''fast'' \<in> tags r)
   \<and> \<not> include_test (r\<lparr>tags := {''slow''}\<rparr>) {''fast''} {}
   \<and> include_test (r\<lparr>tags := {''fast''}\<rparr>) {''fast''} {}"
  by (auto simp add: include_test_def)

theorem include_fast_iff_witness:
  "include_test \<lparr>fails = {} :: predicate set, skips = {},
                 tags = {''fast'', ''slow''}\<rparr> {''fast''} {}"
  using include_fast_iff [of "\<lparr>fails = {} :: predicate set, skips = {},
                               tags = {''fast'', ''slow''}\<rparr>"]
  by simp

section \<open>Version-spec predicates\<close>

lemma tuple_cmp_ints:
  "tuple_cmp c (map PInt xs) (map PInt ys) =
     Inr (case c of Lt \<Rightarrow> xs < ys | Le \<Rightarrow> xs \<le> ys | Gt \<Rightarrow> ys < xs | Ge \<Rightarrow> ys \<le> xs)"
proof (induction xs arbitrary: ys)
  case Nil
  then show ?case by (cases ys; cases c) simp_all
next
  case (Cons x xs)
  show ?case
  proof (cases ys)
    case Nil
    then show ?thesis by (cases c) simp_all
  next
    case (Cons y ys')
    then show ?thesis using Cons.IH [of ys'] by (cases c) auto
  qed
qed

lemma split_on_none: "sep \<notin> set xs \<Longrightarrow> split_on sep xs = [xs]"
  by (induction xs) auto

lemma split_on_one: "sep \<notin> set xs \<Longrightarrow> split_on sep (xs @ sep # ys) = xs # split_on sep ys"
  by (induction xs) auto

lemma split_db_plain: "CHR ''+'' \<notin> set d \<Longrightarrow> split_db d = Inr (d, None)"
  by (simp add: split_db_def)

lemma split_db_plus:
  "CHR ''+'' \<notin> set dialect \<Longrightarrow> CHR ''+'' \<notin> set sub \<Longrightarrow>
   split_db (dialect @ CHR ''+'' # sub) = Inr (dialect, Some sub)"
  by (simp add: split_db_def split_on_one split_on_none)

lemma call_spec_None: "SpecPredicate_call d opr s None = Inr False"
  by (simp add: SpecPredicate_call_def)

lemma enabled_all_False:
  "\<forall>p \<in> set ps. call p cfg = Inr False \<Longrightarrow> enabled_for_config ps cfg = Inr True"
  by (induction ps) simp_all

text \<open>
  C10. Every version-spec predicate, whatever its backend string, operator and version,
  evaluates to false against an absent context, without raising; so a rule whose skip-
  and fail-predicates are all version-spec predicates is enabled when there is no
  context, in whatever order the union of the two sets is iterated.
\<close>

theorem spec_predicates_absent_context:
  "call (SpecPredicate d opr s ds) None = Inr False
   \<and> ((\<forall>p \<in> skips r \<union> fails r. \<exists>d opr s ds. p = SpecPredicate d opr s ds)
        \<longrightarrow> set ps = skips r \<union> fails r
        \<longrightarrow> enabled_for_config ps None = Inr True)"
proof (intro conjI impI)
  show "call (SpecPredicate d opr s ds) None = Inr False"
    by (simp add: call_spec_None)
next
  assume all: "\<forall>p \<in> skips r \<union> fails r. \<exists>d opr s ds. p = SpecPredicate d opr s ds"
    and ps: "set ps = skips r \<union> fails r"
  have "\<forall>p \<in> set ps. call p None = Inr False"
  proof
    fix p assume "p \<in> set ps"
    then have "p \<in> skips r \<union> fails r" using ps by simp
    then obtain d' opr' s' ds' where "p = SpecPredicate d' opr' s' ds'"
      using all by blast
    then show "call p None = Inr False" by (simp add: call_spec_None)
  qed
  then show "enabled_for_config ps None = Inr True"
    by (rule enabled_all_False)
qed

theorem spec_predicates_absent_context_witness:
  "enabled_for_config
     [SpecPredicate ''mysql+pymysql'' (Some (OpName ''>='')) (PTuple [PInt 5]) None,
      SpecPredicate ''pg'' (Some (OpName ''no such operator'')) PNone None] None = Inr True"
proof -
  let ?a = "SpecPredicate ''mysql+pymysql'' (Some (OpName ''>='')) (PTuple [PInt 5]) None"
  let ?b = "SpecPredicate ''pg'' (Some (OpName ''no such operator'')) PNone None"
  let ?r = "\<lparr>fails = {?b}, skips = {?a}, tags = {}\<rparr>"
  have h1: "\<forall>p \<in> skips ?r \<union> fails ?r. \<exists>d opr s ds. p = SpecPredicate d opr s ds"
    by simp
  have h2: "set [?a, ?b] = skips ?r \<union> fails ?r"
    by (simp add: insert_commute)
  show ?thesis
    by (rule spec_predicates_absent_context
          [of "''pg''" None PNone None ?r "[?a, ?b]", THEN conjunct2, THEN mp, OF h1, THEN mp, OF h2])
qed


lemma call_spec_plus:
  assumes "CHR ''+'' \<notin> set dialect" "CHR ''+'' \<notin> set sub"
  shows "SpecPredicate_call (dialect @ CHR ''+'' # sub) opr s (Some c) =
           (if dialect \<noteq> [] \<and> name (db c) \<noteq> dialect then Inr False
            else if driver (db c) \<noteq> sub then Inr False
            else (case opr of
                    None \<Rightarrow> Inr True
                  | Some ov \<Rightarrow> Inl (AssertionError ''DBAPI version specs not supported yet'')))"
  using split_db_plus [OF assms]
  by (simp add: SpecPredicate_call_def split: option.splits)

lemma call_spec_plain:
  assumes "CHR ''+'' \<notin> set d"
  shows "SpecPredicate_call d opr s (Some c) =
           (if d \<noteq> [] \<and> name (db c) \<noteq> d then Inr False
            else (case opr of
                    None \<Rightarrow> Inr True
                  | Some ov \<Rightarrow>
                      (case lookup_oper ov of
                         Inl e \<Rightarrow> Inl e
                       | Inr oper \<Rightarrow> oper (server_version (db c)) s)))"
  using split_db_plain [OF assms]
  by (simp add: SpecPredicate_call_def split: option.splits)

lemma ops_ordering:
  "ops ''<'' = Some (py_cmp Lt)" "ops ''<='' = Some (py_cmp Le)"
  "ops ''>'' = Some (py_cmp Gt)" "ops ''>='' = Some (py_cmp Ge)"
  by (simp_all add: ops_def)

lemma call_spec_ordering:
  assumes "CHR ''+'' \<notin> set d" "d = [] \<or> name (db c) = d"
    and "server_version_info (db c) = Some v"
  shows "call (SpecPredicate d (Some (OpName ''<'')) (PTuple (map PInt w)) ds) (Some c) = Inr (v < w)"
    and "call (SpecPredicate d (Some (OpName ''<='')) (PTuple (map PInt w)) ds) (Some c) = Inr (v \<le> w)"
    and "call (SpecPredicate d (Some (OpName ''>'')) (PTuple (map PInt w)) ds) (Some c) = Inr (w < v)"
    and "call (SpecPredicate d (Some (OpName ''>='')) (PTuple (map PInt w)) ds) (Some c) = Inr (w \<le> v)"
  using assms(2,3)
  by (auto simp add: call_spec_plain [OF assms(1)] lookup_oper_def ops_ordering
        server_version_def tuple_cmp_ints)

text \<open>
  C1, as stated, fails: building a version-spec predicate from a backend string with a
  sub-identifier and an operator returns the predicate, directly and through
  \<open>as_predicate\<close> on a string.
\<close>

theorem spec_init_counterexample:
  "SpecPredicate_init ''pg+psycopg2'' (Some (OpName ''>='')) (PTuple [PInt 9, PInt 0]) None
     = Inr (SpecPredicate ''pg+psycopg2'' (Some (OpName ''>='')) (PTuple [PInt 9, PInt 0]) None)
   \<and> as_predicate (DString ''pg+psycopg2 >= 9.0'') None
     = Inr (SpecPredicate ''pg+psycopg2'' (Some (OpName ''>='')) (PTuple [PInt 9, PInt 0]) None)"
  by (simp add: as_predicate_string_def match_tokens_def is_word_def is_space_def
        is_digit_def match_version_def py_int_def SpecPredicate_init_def)

text \<open>
  C1, amended. Building a version-spec predicate never fails, whatever the backend string
  and the operator. A sub-identifier combined with an operator is rejected when the
  predicate is evaluated: for a backend string \<open>dialect+sub\<close> and an operator,
  evaluation returns false against an absent context and against a context whose backend
  differs from a non-empty \<open>dialect\<close> or whose driver differs from \<open>sub\<close>, and raises
  the assertion error against every other context.
\<close>

theorem spec_combination_rejected_at_call:
  "SpecPredicate_init d opr s ds = Inr (SpecPredicate d opr s ds)
   \<and> (CHR ''+'' \<notin> set dialect \<longrightarrow> CHR ''+'' \<notin> set sub \<longrightarrow>
        call (SpecPredicate (dialect @ ''+'' @ sub) (Some ov) s ds) cfg =
          (case cfg of
             None \<Rightarrow> Inr False
           | Some c \<Rightarrow>
               if dialect \<noteq> [] \<and> name (db c) \<noteq> dialect then Inr False
               else if driver (db c) \<noteq> sub then Inr False
               else Inl (AssertionError ''DBAPI version specs not supported yet'')))"
  by (cases cfg) (simp_all add: SpecPredicate_init_def call_spec_None call_spec_plus)

theorem spec_combination_rejected_at_call_witness:
  "call (SpecPredicate ''pg+psycopg2'' (Some (OpName ''>='')) (PTuple [PInt 9, PInt 0]) None)
     (Some \<lparr>db = \<lparr>name = ''pg'', driver = ''psycopg2'', server_version_info = Some [9, 1, 0],
                   url_driver_name = ''psycopg2'', url_backend_name = ''postgresql''\<rparr>\<rparr>)
   = Inl (AssertionError ''DBAPI version specs not supported yet'')"
  using spec_combination_rejected_at_call
    [of "''pg+psycopg2''" None "PTuple [PInt 9, PInt 0]" None "''pg''" "''psycopg2''"
        "OpName ''>=''"
        "Some \<lparr>db = \<lparr>name = ''pg'', driver = ''psycopg2'', server_version_info = Some [9, 1, 0],
                   url_driver_name = ''psycopg2'', url_backend_name = ''postgresql''\<rparr>\<rparr>"]
  by simp


text \<open>
  C7, as stated, fails in two places. A backend string without a backend name, such as
  \<open>"+psycopg2"\<close>, matches a context whose backend is \<open>"pg"\<close>, although the empty
  backend identifier differs from it; and with backend and sub-identifier both matching,
  an operator is not applied: evaluation raises.
\<close>

theorem spec_call_counterexample:
  "call (SpecPredicate ''+psycopg2'' None PNone None)
     (Some \<lparr>db = \<lparr>name = ''pg'', driver = ''psycopg2'', server_version_info = Some [9, 1, 0],
                   url_driver_name = ''psycopg2'', url_backend_name = ''postgresql''\<rparr>\<rparr>)
     = Inr True
   \<and> call (SpecPredicate ''pg+psycopg2'' (Some (OpName ''>='')) (PTuple [PInt 9, PInt 0]) None)
     (Some \<lparr>db = \<lparr>name = ''pg'', driver = ''psycopg2'', server_version_info = Some [9, 1, 0],
                   url_driver_name = ''psycopg2'', url_backend_name = ''postgresql''\<rparr>\<rparr>)
     = Inl (AssertionError ''DBAPI version specs not supported yet'')"
  by (simp add: SpecPredicate_call_def split_db_def)

text \<open>
  C7, amended. Against a present context, evaluation of a version-spec predicate returns
  false whenever its backend identifier is not empty and differs from the context's
  backend, whatever the version, and returns false when a specified sub-identifier
  differs from the context's driver. Otherwise, for a backend string without
  sub-identifier, an operator of the table is applied to the context's version tuple and
  the spec's version, and the ordering operators compare tuples of integers
  lexicographically. \<open>VersionSpec("pg", ">=", (9,0))\<close> matches a context with backend
  \<open>"pg"\<close> and version \<open>(9,1,0)\<close>, and matches no context with backend \<open>"mysql"\<close>.
\<close>

theorem spec_call_cases:
  "(CHR ''+'' \<notin> set d \<longrightarrow> d \<noteq> [] \<longrightarrow> name (db c) \<noteq> d \<longrightarrow>
      call (SpecPredicate d opr s ds) (Some c) = Inr False)
   \<and> (CHR ''+'' \<notin> set dialect \<longrightarrow> CHR ''+'' \<notin> set sub \<longrightarrow>
        dialect \<noteq> [] \<longrightarrow> name (db c) \<noteq> dialect \<longrightarrow>
        call (SpecPredicate (dialect @ ''+'' @ sub) opr s ds) (Some c) = Inr False)
   \<and> (CHR ''+'' \<notin> set dialect \<longrightarrow> CHR ''+'' \<notin> set sub \<longrightarrow>
        driver (db c) \<noteq> sub \<longrightarrow>
        call (SpecPredicate (dialect @ ''+'' @ sub) opr s ds) (Some c) = Inr False)
   \<and> (CHR ''+'' \<notin> set d \<longrightarrow> (d = [] \<or> name (db c) = d) \<longrightarrow> ops k = Some f \<longrightarrow>
        call (SpecPredicate d (Some (OpName k)) s ds) (Some c) = f (server_version (db c)) s)
   \<and> (CHR ''+'' \<notin> set d \<longrightarrow> (d = [] \<or> name (db c) = d) \<longrightarrow>
        server_version_info (db c) = Some v \<longrightarrow>
        call (SpecPredicate d (Some (OpName ''<'')) (PTuple (map PInt w)) ds) (Some c)
          = Inr (v < w)
        \<and> call (SpecPredicate d (Some (OpName ''<='')) (PTuple (map PInt w)) ds) (Some c)
          = Inr (v \<le> w)
        \<and> call (SpecPredicate d (Some (OpName ''>'')) (PTuple (map PInt w)) ds) (Some c)
          = Inr (w < v)
        \<and> call (SpecPredicate d (Some (OpName ''>='')) (PTuple (map PInt w)) ds) (Some c)
          = Inr (w \<le> v))
   \<and> (name (db c) = ''pg'' \<longrightarrow> server_version_info (db c) = Some [9, 1, 0] \<longrightarrow>
        call (SpecPredicate ''pg'' (Some (OpName ''>='')) (PTuple [PInt 9, PInt 0]) None)
          (Some c) = Inr True)
   \<and> (name (db c) = ''mysql'' \<longrightarrow>
        call (SpecPredicate ''pg'' (Some (OpName ''>='')) (PTuple [PInt 9, PInt 0]) None)
          (Some c) = Inr False)"
proof (intro conjI impI)
  assume "CHR ''+'' \<notin> set d" "d \<noteq> []" "name (db c) \<noteq> d"
  then show "call (SpecPredicate d opr s ds) (Some c) = Inr False"
    by (simp add: call_spec_plain)
next
  assume "CHR ''+'' \<notin> set dialect" "CHR ''+'' \<notin> set sub" "dialect \<noteq> []"
    "name (db c) \<noteq> dialect"
  then show "call (SpecPredicate (dialect @ ''+'' @ sub) opr s ds) (Some c) = Inr False"
    by (simp add: call_spec_plus)
next
  assume "CHR ''+'' \<notin> set dialect" "CHR ''+'' \<notin> set sub" "driver (db c) \<noteq> sub"
  then show "call (SpecPredicate (dialect @ ''+'' @ sub) opr s ds) (Some c) = Inr False"
    by (simp add: call_spec_plus)
next
  assume "CHR ''+'' \<notin> set d" "d = [] \<or> name (db c) = d" "ops k = Some f"
  then show "call (SpecPredicate d (Some (OpName k)) s ds) (Some c)
               = f (server_version (db c)) s"
    by (auto simp add: call_spec_plain lookup_oper_def)
next
  assume a: "CHR ''+'' \<notin> set d" "d = [] \<or> name (db c) = d"
    "server_version_info (db c) = Some v"
  show "call (SpecPredicate d (Some (OpName ''<'')) (PTuple (map PInt w)) ds) (Some c)
          = Inr (v < w)"
    by (rule call_spec_ordering(1) [OF a])
  show "call (SpecPredicate d (Some (OpName ''<='')) (PTuple (map PInt w)) ds) (Some c)
          = Inr (v \<le> w)"
    by (rule call_spec_ordering(2) [OF a])
  show "call (SpecPredicate d (Some (OpName ''>'')) (PTuple (map PInt w)) ds) (Some c)
          = Inr (w < v)"
    by (rule call_spec_ordering(3) [OF a])
  show "call (SpecPredicate d (Some (OpName ''>='')) (PTuple (map PInt w)) ds) (Some c)
          = Inr (w \<le> v)"
    by (rule call_spec_ordering(4) [OF a])
next
  assume a: "name (db c) = ''pg''" "server_version_info (db c) = Some [9, 1, 0]"
  have "call (SpecPredicate ''pg'' (Some (OpName ''>='')) (PTuple (map PInt [9, 0])) None)
          (Some c) = Inr ([9, 0] \<le> [9, 1, 0 :: int])"
    by (rule call_spec_ordering(4)) (simp_all add: a)
  then show "call (SpecPredicate ''pg'' (Some (OpName ''>='')) (PTuple [PInt 9, PInt 0]) None)
          (Some c) = Inr True"
    by simp
next
  assume "name (db c) = ''mysql''"
  then show "call (SpecPredicate ''pg'' (Some (OpName ''>='')) (PTuple [PInt 9, PInt 0]) None)
          (Some c) = Inr False"
    by (simp add: call_spec_plain)
qed


theorem spec_call_cases_witness:
  "call (SpecPredicate ''mysql+pymysql'' None (PInt 9) None)
     (Some \<lparr>db = \<lparr>name = ''pg'', driver = ''psycopg2'', server_version_info = Some [9, 1, 0],
                   url_driver_name = ''psycopg2'', url_backend_name = ''postgresql''\<rparr>\<rparr>)
     = Inr False
   \<and> call (SpecPredicate ''pg'' (Some (OpName ''in'')) (PInt 9) None)
     (Some \<lparr>db = \<lparr>name = ''pg'', driver = ''psycopg2'', server_version_info = Some [9, 1, 0],
                   url_driver_name = ''psycopg2'', url_backend_name = ''postgresql''\<rparr>\<rparr>)
     = Inr True
   \<and> call (SpecPredicate ''pg'' (Some (OpName ''<'')) (PTuple [PInt 9, PInt 0]) None)
     (Some \<lparr>db = \<lparr>name = ''pg'', driver = ''psycopg2'', server_version_info = Some [9, 1, 0],
                   url_driver_name = ''psycopg2'', url_backend_name = ''postgresql''\<rparr>\<rparr>)
     = Inr False
   \<and> call (SpecPredicate ''pg'' (Some (OpName ''>='')) (PTuple [PInt 9, PInt 0]) None)
     (Some \<lparr>db = \<lparr>name = ''pg'', driver = ''psycopg2'', server_version_info = Some [9, 1, 0],
                   url_driver_name = ''psycopg2'', url_backend_name = ''postgresql''\<rparr>\<rparr>)
     = Inr True
   \<and> call (SpecPredicate ''pg'' (Some (OpName ''>='')) (PTuple [PInt 9, PInt 0]) None)
     (Some \<lparr>db = \<lparr>name = ''mysql'', driver = ''pymysql'', server_version_info = Some [8, 0],
                   url_driver_name = ''pymysql'', url_backend_name = ''mysql''\<rparr>\<rparr>)
     = Inr False"
  using
    spec_call_cases
      [where d = "''pg''" and opr = None and s = "PInt 9" and ds = None
         and dialect = "''mysql''" and sub = "''pymysql''"
         and k = "''in''" and f = operator_contains and v = "[9, 1, 0]" and w = "[9, 0]"
         and c = "\<lparr>db = \<lparr>name = ''pg'', driver = ''psycopg2'',
                           server_version_info = Some [9, 1, 0],
                           url_driver_name = ''psycopg2'',
                           url_backend_name = ''postgresql''\<rparr>\<rparr>"]
    spec_call_cases
      [where d = "''pg''" and opr = "Some (OpName ''>='')" and s = "PTuple [PInt 9, PInt 0]"
         and ds = None and dialect = "''pg''" and sub = "''psycopg2''"
         and k = "''>=''" and f = "py_cmp Ge" and v = "[8, 0]" and w = "[9, 0]"
         and c = "\<lparr>db = \<lparr>name = ''mysql'', driver = ''pymysql'',
                           server_version_info = Some [8, 0],
                           url_driver_name = ''pymysql'',
                           url_backend_name = ''mysql''\<rparr>\<rparr>"]
  by (simp add: ops_def server_version_def)

section \<open>Composition of rules\<close>

lemma add_from_length: "length (add_from h c p) = length h"
  by (simp add: add_from_def update_fails_def update_skips_def update_tags_def Let_def)

lemma add_from_other: "q \<noteq> c \<Longrightarrow> add_from h c p ! q = h ! q"
  by (simp add: add_from_def update_fails_def update_skips_def update_tags_def Let_def)

lemma add_from_copy:
  "c < length h \<Longrightarrow> p \<noteq> c \<Longrightarrow>
   add_from h c p ! c =
     \<lparr>fails = fails (h ! c) \<union> fails (h ! p),
      skips = skips (h ! c) \<union> skips (h ! p),
      tags = tags (h ! c) \<union> tags (h ! p)\<rparr>"
  by (simp add: add_from_def update_fails_def update_skips_def update_tags_def Let_def)

lemma foldl_add_from:
  "c < length h \<Longrightarrow> c \<notin> set others \<Longrightarrow>
   length (foldl (\<lambda>hh other. add_from hh c other) h others) = length h
   \<and> (\<forall>q. q \<noteq> c \<longrightarrow> foldl (\<lambda>hh other. add_from hh c other) h others ! q = h ! q)
   \<and> foldl (\<lambda>hh other. add_from hh c other) h others ! c =
       \<lparr>fails = fails (h ! c) \<union> (\<Union>other \<in> set others. fails (h ! other)),
        skips = skips (h ! c) \<union> (\<Union>other \<in> set others. skips (h ! other)),
        tags = tags (h ! c) \<union> (\<Union>other \<in> set others. tags (h ! other))\<rparr>"
proof (induction others arbitrary: h)
  case Nil
  then show ?case by simp
next
  case (Cons x xs)
  let ?h = "add_from h c x"
  have len: "c < length ?h" using Cons.prems by (simp add: add_from_length)
  have notin: "c \<notin> set xs" and xc: "x \<noteq> c" using Cons.prems by auto
  note IH = Cons.IH [OF len notin]
  have same: "\<forall>other \<in> set xs. ?h ! other = h ! other"
  proof
    fix other assume "other \<in> set xs"
    then have "other \<noteq> c" using notin by auto
    then show "?h ! other = h ! other" by (rule add_from_other)
  qed
  show ?case
    using IH same Cons.prems(1) xc
    by (simp add: add_from_length add_from_other add_from_copy Un_assoc)
qed

lemma add_result:
  assumes "self < length h" "\<forall>other \<in> set others. other < length h"
  shows "\<exists>h'. add h self others = Some (h', length h)
           \<and> length h' = Suc (length h)
           \<and> (\<forall>q < length h. h' ! q = h ! q)
           \<and> h' ! length h =
               \<lparr>fails = fails (h ! self) \<union> (\<Union>other \<in> set others. fails (h ! other)),
                skips = skips (h ! self) \<union> (\<Union>other \<in> set others. skips (h ! other)),
                tags = tags (h ! self) \<union> (\<Union>other \<in> set others. tags (h ! other))\<rparr>"
proof -
  let ?c = "length h"
  let ?h0 = "h @ [compound_init]"
  let ?h1 = "add_from ?h0 ?c self"
  let ?h' = "foldl (\<lambda>hh other. add_from hh ?c other) ?h1 others"
  have addeq: "add h self others = Some (?h', ?c)"
    using assms by (simp add: add_def new_compound_def)
  have c1: "?c < length ?h1" by (simp add: add_from_length)
  have notin: "?c \<notin> set others" using assms(2) by auto
  note F = foldl_add_from [OF c1 notin]
  have h1c: "?h1 ! ?c = \<lparr>fails = fails (h ! self), skips = skips (h ! self), tags = tags (h ! self)\<rparr>"
    using assms(1) by (simp add: add_from_copy compound_init_def nth_append)
  have h1o: "\<forall>q < length h. ?h1 ! q = h ! q"
    by (simp add: add_from_other nth_append)
  have "length ?h' = Suc (length h)"
    using F by (simp add: add_from_length)
  moreover have "\<forall>q < length h. ?h' ! q = h ! q"
    using F h1o by simp
  moreover have "?h' ! ?c =
               \<lparr>fails = fails (h ! self) \<union> (\<Union>other \<in> set others. fails (h ! other)),
                skips = skips (h ! self) \<union> (\<Union>other \<in> set others. skips (h ! other)),
                tags = tags (h ! self) \<union> (\<Union>other \<in> set others. tags (h ! other))\<rparr>"
    using F h1c h1o assms(2) by simp
  ultimately show ?thesis using addeq by blast
qed


text \<open>
  C6. For rules \<open>a\<close> and \<open>b\<close> of the store, \<open>a.add(b)\<close> is a new rule whose three
  fields are the unions of the fields of \<open>a\<close> and \<open>b\<close>; no rule that was in the store,
  so neither operand, is changed; \<open>b.add(a)\<close> has the same fields; and
  \<open>(a.add(b)).add(c)\<close> has the same fields as \<open>a.add(b.add(c))\<close>.
\<close>

theorem add_union:
  assumes "a < length h" and "b < length h" and "c < length h"
  shows "\<exists>h1 ab.
           add h a [b] = Some (h1, ab)
           \<and> ab = length h \<and> length h1 = Suc (length h)
           \<and> (\<forall>q < length h. h1 ! q = h ! q)
           \<and> fails (h1 ! ab) = fails (h ! a) \<union> fails (h ! b)
           \<and> skips (h1 ! ab) = skips (h ! a) \<union> skips (h ! b)
           \<and> tags (h1 ! ab) = tags (h ! a) \<union> tags (h ! b)
           \<and> (\<exists>h2 ba. add h b [a] = Some (h2, ba) \<and> h2 ! ba = h1 ! ab)
           \<and> (\<exists>h2 abc h3 bc h4 abc'.
                  add h1 ab [c] = Some (h2, abc)
                  \<and> add h b [c] = Some (h3, bc)
                  \<and> add h3 a [bc] = Some (h4, abc')
                  \<and> h2 ! abc = h4 ! abc')"
proof -
  obtain h1 where h1: "add h a [b] = Some (h1, length h)" "length h1 = Suc (length h)"
      "\<forall>q < length h. h1 ! q = h ! q"
      "h1 ! length h = \<lparr>fails = fails (h ! a) \<union> fails (h ! b),
                         skips = skips (h ! a) \<union> skips (h ! b),
                         tags = tags (h ! a) \<union> tags (h ! b)\<rparr>"
    using add_result [of a h "[b]"] assms by auto
  obtain h2 where h2: "add h b [a] = Some (h2, length h)"
      "h2 ! length h = \<lparr>fails = fails (h ! b) \<union> fails (h ! a),
                         skips = skips (h ! b) \<union> skips (h ! a),
                         tags = tags (h ! b) \<union> tags (h ! a)\<rparr>"
    using add_result [of b h "[a]"] assms by auto
  have comm: "h2 ! length h = h1 ! length h"
    by (simp add: h1(4) h2(2) Un_commute)
  have c1: "c < length h1" "length h < length h1" using assms h1(2) by simp_all
  obtain h3 where h3: "add h1 (length h) [c] = Some (h3, length h1)"
      "h3 ! length h1 = \<lparr>fails = fails (h1 ! length h) \<union> fails (h1 ! c),
                          skips = skips (h1 ! length h) \<union> skips (h1 ! c),
                          tags = tags (h1 ! length h) \<union> tags (h1 ! c)\<rparr>"
    using add_result [of "length h" h1 "[c]"] c1 by auto
  obtain h4 where h4: "add h b [c] = Some (h4, length h)" "length h4 = Suc (length h)"
      "\<forall>q < length h. h4 ! q = h ! q"
      "h4 ! length h = \<lparr>fails = fails (h ! b) \<union> fails (h ! c),
                         skips = skips (h ! b) \<union> skips (h ! c),
                         tags = tags (h ! b) \<union> tags (h ! c)\<rparr>"
    using add_result [of b h "[c]"] assms by auto
  have a4: "a < length h4" "length h < length h4" using assms h4(2) by simp_all
  obtain h5 where h5: "add h4 a [length h] = Some (h5, length h4)"
      "h5 ! length h4 = \<lparr>fails = fails (h4 ! a) \<union> fails (h4 ! length h),
                          skips = skips (h4 ! a) \<union> skips (h4 ! length h),
                          tags = tags (h4 ! a) \<union> tags (h4 ! length h)\<rparr>"
    using add_result [of a h4 "[length h]"] a4 by auto
  have assoc: "h3 ! length h1 = h5 ! length h4"
    using assms h1(3) h4(3)
    by (simp add: h3(2) h5(2) h1(4) h4(4) Un_assoc)
  show ?thesis
    using h1 h2(1) comm h3(1) h4(1) h5(1) assoc by simp
qed


theorem add_union_witness:
  "\<exists>h1. add [\<lparr>fails = {}, skips = {BooleanPredicate True ''marked as skip''}, tags = {''slow''}\<rparr>,
              \<lparr>fails = {SpecPredicate ''sqlite'' None PNone None}, skips = {}, tags = {''db''}\<rparr>,
              \<lparr>fails = {}, skips = {}, tags = {''fast''}\<rparr>] 0 [1] = Some (h1, 3)
        \<and> h1 ! 0 = \<lparr>fails = {}, skips = {BooleanPredicate True ''marked as skip''},
                     tags = {''slow''}\<rparr>
        \<and> h1 ! 1 = \<lparr>fails = {SpecPredicate ''sqlite'' None PNone None}, skips = {},
                     tags = {''db''}\<rparr>
        \<and> fails (h1 ! 3) = {SpecPredicate ''sqlite'' None PNone None}
        \<and> skips (h1 ! 3) = {BooleanPredicate True ''marked as skip''}
        \<and> tags (h1 ! 3) = {''slow'', ''db''}"
proof -
  let ?h = "[\<lparr>fails = {}, skips = {BooleanPredicate True ''marked as skip''}, tags = {''slow''}\<rparr>,
             \<lparr>fails = {SpecPredicate ''sqlite'' None PNone None}, skips = {}, tags = {''db''}\<rparr>,
             \<lparr>fails = {}, skips = {}, tags = {''fast''}\<rparr>]"
  have len: "0 < length ?h" "1 < length ?h" "2 < length ?h" by simp_all
  from add_union [OF len] obtain h1 ab where
    r: "add ?h 0 [1] = Some (h1, ab)" "ab = length ?h"
       "\<forall>q < length ?h. h1 ! q = ?h ! q"
       "fails (h1 ! ab) = fails (?h ! 0) \<union> fails (?h ! 1)"
       "skips (h1 ! ab) = skips (?h ! 0) \<union> skips (?h ! 1)"
       "tags (h1 ! ab) = tags (?h ! 0) \<union> tags (?h ! 1)"
    by blast
  have ab: "ab = 3" using r(2) by simp
  have "h1 ! 0 = ?h ! 0" "h1 ! 1 = ?h ! 1" using r(3) by simp_all
  then show ?thesis using r(1,4,5,6) ab by (simp add: insert_commute)
qed

section \<open>Enforcement\<close>

lemma skip_loop_no_match:
  "\<forall>p \<in> set ps. call p cfg = Inr False \<Longrightarrow> skip_loop pf cfg tn ps = Inr None"
  by (induction ps) simp_all

lemma skip_loop_first:
  "\<forall>q \<in> set pre. call q cfg = Inr False \<Longrightarrow> call p cfg = Inr True \<Longrightarrow>
   skip_loop pf cfg tn (pre @ p # post) =
     (case as_string pf p cfg False of
        Inl e \<Rightarrow> Inl e
      | Inr s \<Rightarrow> Inr (Some ([CHR 0x27] @ tn @ [CHR 0x27] @ '' : '' @ s)))"
  by (induction pre) simp_all

lemma skip_loop_match:
  "\<exists>p \<in> set ps. call p cfg = Inr True \<Longrightarrow> skip_loop pf cfg tn ps \<noteq> Inr None"
proof (induction ps)
  case Nil
  then show ?case by simp
next
  case (Cons q qs)
  show ?case
  proof (cases "call q cfg")
    case (Inl e)
    then show ?thesis by simp
  next
    case (Inr b)
    show ?thesis
    proof (cases b)
      case True
      then show ?thesis using Inr by (simp split: sum.splits)
    next
      case False
      then have "\<exists>p \<in> set qs. call p cfg = Inr True" using Cons.prems Inr by auto
      then show ?thesis using Cons.IH Inr False by simp
    qed
  qed
qed

lemma compound_do_skipped:
  assumes "skip_loop pf cfg tn skips_seq \<noteq> Inr None"
  shows "snd (compound_do pf cfg tn fnn fn skips_seq fails_seq) = []
         \<and> ((\<exists>msg. fst (compound_do pf cfg tn fnn fn skips_seq fails_seq) = Skipped msg)
            \<or> (\<exists>e. fst (compound_do pf cfg tn fnn fn skips_seq fails_seq) = Raised e))"
  using assms
  by (cases "skip_loop pf cfg tn skips_seq")
     (auto simp add: compound_do_def skip_test_def split: option.splits)

lemma py_percent_go_plain:
  "CHR ''%'' \<notin> set s \<Longrightarrow> py_percent_go Text m s = Some (Inr s)"
  by (induction s) auto

lemma as_string_constant:
  "CHR ''%'' \<notin> set ds \<Longrightarrow> as_string pf (BooleanPredicate v ds) cfg negate = Inr ds"
  by (simp add: format_description_def py_percent_def py_percent_go_plain Let_def)


text \<open>
  C8, as stated, fails. A rule whose only skip-predicate is constant-true does not always
  end \<open>Skipped\<close>: formatting the description \<open>"50%"\<close> raises, and the run ends with
  that error. And where the run ends \<open>Skipped\<close>, the reason is not the predicate's
  description \<open>"marked as skip"\<close> but the test name followed by it.
\<close>

theorem skip_counterexample:
  "compound_do sample_formatter None ''test_a'' ''test_a'' (Inr (0 :: nat)) [BooleanPredicate True ''50%''] []
     = (Raised (ValueError ''incomplete format''), [])
   \<and> compound_do sample_formatter None ''test_a'' ''test_a'' (Inr (0 :: nat))
       [BooleanPredicate True ''marked as skip''] []
     = (Skipped ([CHR 0x27] @ ''test_a'' @ [CHR 0x27] @ '' : marked as skip''), [])"
  by (simp add: compound_do_def skip_test_def format_description_def py_percent_def)

text \<open>
  C8, amended. Skip-predicates are evaluated before the wrapped function is invoked. If
  any skip-predicate matches, the wrapped function is never invoked, and the run ends
  \<open>Skipped\<close> or with an error raised by a predicate or by the formatting of a
  description. When the predicates iterated before the first matching one evaluate to
  false and the description of that one formats, the run ends \<open>Skipped\<close> with the
  test name, in quotes, a colon and that description as the reason. In particular a
  rule whose only skip-predicate is constant-true with a description free of \<open>%\<close>
  ends \<open>Skipped\<close> without the wrapped function being invoked.
\<close>

theorem skip_before_body:
  "((\<exists>p \<in> set skips_seq. call p cfg = Inr True) \<longrightarrow>
      snd (compound_do pf cfg tn fnn fn skips_seq fails_seq) = []
      \<and> ((\<exists>msg. fst (compound_do pf cfg tn fnn fn skips_seq fails_seq) = Skipped msg)
         \<or> (\<exists>e. fst (compound_do pf cfg tn fnn fn skips_seq fails_seq) = Raised e)))
   \<and> ((\<forall>q \<in> set pre. call q cfg = Inr False) \<longrightarrow> call p cfg = Inr True \<longrightarrow>
        as_string pf p cfg False = Inr s \<longrightarrow>
        compound_do pf cfg tn fnn fn (pre @ p # post) fails_seq
          = (Skipped ([CHR 0x27] @ tn @ [CHR 0x27] @ '' : '' @ s), []))
   \<and> (CHR ''%'' \<notin> set ds \<longrightarrow>
        compound_do pf cfg tn fnn fn [BooleanPredicate True ds] fails_seq
          = (Skipped ([CHR 0x27] @ tn @ [CHR 0x27] @ '' : '' @ ds), []))"
proof (intro conjI impI)
  assume m: "\<exists>p \<in> set skips_seq. call p cfg = Inr True"
  have n: "skip_loop pf cfg tn skips_seq \<noteq> Inr None"
    using m by (rule skip_loop_match)
  show "snd (compound_do pf cfg tn fnn fn skips_seq fails_seq) = []"
    using compound_do_skipped [OF n, where fnn = fnn and fn = fn and fails_seq = fails_seq]
    by simp
  show "(\<exists>msg. fst (compound_do pf cfg tn fnn fn skips_seq fails_seq) = Skipped msg)
         \<or> (\<exists>e. fst (compound_do pf cfg tn fnn fn skips_seq fails_seq) = Raised e)"
    using compound_do_skipped [OF n, where fnn = fnn and fn = fn and fails_seq = fails_seq]
    by simp
next
  assume "\<forall>q \<in> set pre. call q cfg = Inr False" "call p cfg = Inr True"
    "as_string pf p cfg False = Inr s"
  then show "compound_do pf cfg tn fnn fn (pre @ p # post) fails_seq
          = (Skipped ([CHR 0x27] @ tn @ [CHR 0x27] @ '' : '' @ s), [])"
    by (simp add: compound_do_def skip_loop_first skip_test_def)
next
  assume "CHR ''%'' \<notin> set ds"
  then have "as_string pf (BooleanPredicate True ds) cfg False = Inr ds"
    by (rule as_string_constant)
  then show "compound_do pf cfg tn fnn fn [BooleanPredicate True ds] fails_seq
          = (Skipped ([CHR 0x27] @ tn @ [CHR 0x27] @ '' : '' @ ds), [])"
    by (simp add: compound_do_def skip_test_def)
qed

theorem skip_before_body_witness:
  "compound_do sample_formatter None ''test_a'' ''test_a'' (Inl (ValueError ''x'') :: pyexn + nat)
     [SpecPredicate ''sqlite'' None PNone None, BooleanPredicate True ''marked as skip'',
      BooleanPredicate True ''50%''] []
     = (Skipped ([CHR 0x27] @ ''test_a'' @ [CHR 0x27] @ '' : marked as skip''), [])
   \<and> compound_do sample_formatter None ''test_a'' ''test_a'' (Inl (ValueError ''x'') :: pyexn + nat)
     [BooleanPredicate True ''marked as skip''] []
     = (Skipped ([CHR 0x27] @ ''test_a'' @ [CHR 0x27] @ '' : marked as skip''), [])"
proof -
  let ?sq = "SpecPredicate ''sqlite'' None PNone None"
  let ?b = "BooleanPredicate True ''marked as skip''"
  let ?c = "BooleanPredicate True ''50%''"
  have h0: "\<exists>p \<in> set [?sq, ?b, ?c]. call p None = Inr True" by simp
  have h1: "\<forall>q \<in> set [?sq]. call q None = Inr False"
    by (simp add: SpecPredicate_call_def)
  have h2: "call ?b None = Inr True" by simp
  have h3: "as_string sample_formatter ?b None False = Inr ''marked as skip''"
    by (simp add: format_description_def py_percent_def)
  have h4: "CHR ''%'' \<notin> set ''marked as skip''" by simp
  note T = skip_before_body
    [where pf = sample_formatter and skips_seq = "[?sq, ?b, ?c]" and cfg = None and pre = "[?sq]" and p = ?b
       and post = "[?c]" and s = "''marked as skip''" and ds = "''marked as skip''"
       and tn = "''test_a''" and fnn = "''test_a''"
       and fn = "Inl (ValueError ''x'') :: pyexn + nat" and fails_seq = "[]"]
  from T h0 h1 h2 h3 h4 show ?thesis by simp
qed

lemma compound_do_returned:
  assumes "\<forall>q \<in> set skips_seq. call q cfg = Inr False"
  shows "compound_do pf cfg tn nm (Inr rv) skips_seq fails_seq =
           (case expect_success pf cfg nm fails_seq of
              Inl e \<Rightarrow> (Raised e, [Called])
            | Inr u \<Rightarrow> (Returned (Some rv), [Called]))"
  using skip_loop_no_match [OF assms] by (simp add: compound_do_def)








lemma success_loop_no_match:
  "\<forall>f \<in> set fs. call f cfg = Inr False \<Longrightarrow> success_loop pf cfg nm all_fails fs = Inr ()"
  by (induction fs) simp_all

lemma success_loop_first:
  "\<forall>q \<in> set pre. call q cfg = Inr False \<Longrightarrow> call f cfg = Inr True \<Longrightarrow>
   success_loop pf cfg nm all_fails (pre @ f # post) =
     (case as_strings pf all_fails cfg False of
        Inl e \<Rightarrow> Inl e
      | Inr ss \<Rightarrow>
          Inl (AssertionError
                 (''Unexpected success for '' @ [CHR 0x27] @ nm @ [CHR 0x27]
                  @ '' ('' @ join '' and '' ss @ '')'')))"
  by (induction pre) simp_all

lemma success_loop_raises:
  "\<forall>q \<in> set pre. call q cfg = Inr False \<Longrightarrow> call f cfg = Inl e \<Longrightarrow>
   success_loop pf cfg nm all_fails (pre @ f # post) = Inl e"
  by (induction pre) simp_all

lemma as_strings_all2:
  "list_all2 (\<lambda>p s. as_string pf p cfg negate = Inr s) ps ss \<Longrightarrow>
   as_strings pf ps cfg negate = Inr ss"
  by (induction ps ss rule: list_all2_induct) simp_all

lemma as_strings_raises:
  "list_all2 (\<lambda>p s. as_string pf p cfg negate = Inr s) xs ss \<Longrightarrow>
   as_string pf p cfg negate = Inl e \<Longrightarrow>
   as_strings pf (xs @ p # ys) cfg negate = Inl e"
  by (induction xs ss rule: list_all2_induct) simp_all

text \<open>
  C2, as stated, fails. With the fail-predicates \<open>"expected to fail"\<close> (constant-true)
  and \<open>"sqlite"\<close> under the backend \<open>"postgres"\<close>, only the first matches, and the
  message of the failure, of \<open>_expect_success\<close> and so of the wrapper, names both; the
  message the spec describes names the first alone.
\<close>

theorem unexpected_success_counterexample:
  "call (SpecPredicate ''sqlite'' None PNone None)
     (Some \<lparr>db = \<lparr>name = ''postgres'', driver = ''psycopg2'',
                   server_version_info = Some [9, 1, 0], url_driver_name = ''psycopg2'',
                   url_backend_name = ''postgresql''\<rparr>\<rparr>) = Inr False
   \<and> expect_success sample_formatter
     (Some \<lparr>db = \<lparr>name = ''postgres'', driver = ''psycopg2'',
                   server_version_info = Some [9, 1, 0], url_driver_name = ''psycopg2'',
                   url_backend_name = ''postgresql''\<rparr>\<rparr>)
     ''test_a''
     [BooleanPredicate True ''expected to fail'', SpecPredicate ''sqlite'' None PNone None]
     = Inl (AssertionError (''Unexpected success for '' @ [CHR 0x27] @ ''test_a''
                            @ [CHR 0x27] @ '' (expected to fail and sqlite)''))
   \<and> compound_do sample_formatter
     (Some \<lparr>db = \<lparr>name = ''postgres'', driver = ''psycopg2'',
                   server_version_info = Some [9, 1, 0], url_driver_name = ''psycopg2'',
                   url_backend_name = ''postgresql''\<rparr>\<rparr>)
     ''test_a'' ''test_a'' (Inr (0 :: nat)) []
     [BooleanPredicate True ''expected to fail'', SpecPredicate ''sqlite'' None PNone None]
     = (Raised (AssertionError (''Unexpected success for '' @ [CHR 0x27] @ ''test_a''
                                @ [CHR 0x27] @ '' (expected to fail and sqlite)'')),
        [Called])
   \<and> spec_unexpected_success sample_formatter
     (Some \<lparr>db = \<lparr>name = ''postgres'', driver = ''psycopg2'',
                   server_version_info = Some [9, 1, 0], url_driver_name = ''psycopg2'',
                   url_backend_name = ''postgresql''\<rparr>\<rparr>)
     ''test_a''
     [BooleanPredicate True ''expected to fail'', SpecPredicate ''sqlite'' None PNone None]
     = Inl (AssertionError (''Unexpected success for '' @ [CHR 0x27] @ ''test_a''
                            @ [CHR 0x27] @ '' (expected to fail)''))"
  by (simp add: compound_do_def expect_success_def spec_unexpected_success_def
        SpecPredicate_call_def split_db_def format_description_def py_percent_def)

text \<open>
  C2, amended. The wrapped function returns normally, no skip-predicate having matched,
  and the fail-predicates are evaluated in turn. If every one evaluates to false, the
  wrapper returns the value the wrapped function returned, unchanged. If one matches,
  those before it evaluating to false, the descriptions of all the fail-predicates of
  the rule are formatted: when they all format, the wrapper raises a new assertion
  failure whose message joins them with \<open>" and "\<close>, those of the predicates that do
  not match included; when formatting one of them raises, the wrapper raises that
  error. If the evaluation of a fail-predicate raises, those before it evaluating to
  false, the wrapper raises that error.
\<close>

theorem unexpected_success_names_all:
  "((\<forall>f \<in> set fails_seq. call f cfg = Inr False) \<longrightarrow>
      expect_success pf cfg nm fails_seq = Inr ()
      \<and> ((\<forall>q \<in> set skips_seq. call q cfg = Inr False) \<longrightarrow>
           compound_do pf cfg tn nm (Inr rv) skips_seq fails_seq
             = (Returned (Some rv), [Called])))
   \<and> ((\<forall>q \<in> set pre. call q cfg = Inr False) \<longrightarrow> call f cfg = Inr True \<longrightarrow>
        list_all2 (\<lambda>p s. as_string pf p cfg False = Inr s) (pre @ f # post) ss \<longrightarrow>
        expect_success pf cfg nm (pre @ f # post)
          = Inl (AssertionError
                   (''Unexpected success for '' @ [CHR 0x27] @ nm @ [CHR 0x27]
                    @ '' ('' @ join '' and '' ss @ '')''))
        \<and> ((\<forall>q \<in> set skips_seq. call q cfg = Inr False) \<longrightarrow>
             compound_do pf cfg tn nm (Inr rv) skips_seq (pre @ f # post)
               = (Raised (AssertionError
                            (''Unexpected success for '' @ [CHR 0x27] @ nm @ [CHR 0x27]
                             @ '' ('' @ join '' and '' ss @ '')'')),
                  [Called])))
   \<and> ((\<forall>q \<in> set pre. call q cfg = Inr False) \<longrightarrow> call f cfg = Inr True \<longrightarrow>
        pre @ f # post = xs @ p # ys \<longrightarrow>
        list_all2 (\<lambda>q s. as_string pf q cfg False = Inr s) xs ss \<longrightarrow>
        as_string pf p cfg False = Inl e \<longrightarrow>
        expect_success pf cfg nm (pre @ f # post) = Inl e
        \<and> ((\<forall>q \<in> set skips_seq. call q cfg = Inr False) \<longrightarrow>
             compound_do pf cfg tn nm (Inr rv) skips_seq (pre @ f # post)
               = (Raised e, [Called])))
   \<and> ((\<forall>q \<in> set pre. call q cfg = Inr False) \<longrightarrow> call f cfg = Inl e \<longrightarrow>
        expect_success pf cfg nm (pre @ f # post) = Inl e
        \<and> ((\<forall>q \<in> set skips_seq. call q cfg = Inr False) \<longrightarrow>
             compound_do pf cfg tn nm (Inr rv) skips_seq (pre @ f # post)
               = (Raised e, [Called])))"
proof (intro conjI impI)
  assume nf: "\<forall>f \<in> set fails_seq. call f cfg = Inr False"
  show es: "expect_success pf cfg nm fails_seq = Inr ()"
    using success_loop_no_match [OF nf] by (simp add: expect_success_def)
  assume sk: "\<forall>q \<in> set skips_seq. call q cfg = Inr False"
  show "compound_do pf cfg tn nm (Inr rv) skips_seq fails_seq
               = (Returned (Some rv), [Called])"
    by (simp add: compound_do_returned [OF sk] es)
next
  assume pre: "\<forall>q \<in> set pre. call q cfg = Inr False" and f: "call f cfg = Inr True"
    and ss: "list_all2 (\<lambda>p s. as_string pf p cfg False = Inr s) (pre @ f # post) ss"
  have "as_strings pf (pre @ f # post) cfg False = Inr ss"
    using ss by (rule as_strings_all2)
  then show es: "expect_success pf cfg nm (pre @ f # post)
          = Inl (AssertionError
                   (''Unexpected success for '' @ [CHR 0x27] @ nm @ [CHR 0x27]
                    @ '' ('' @ join '' and '' ss @ '')''))"
    using success_loop_first [OF pre f] by (simp add: expect_success_def)
  assume sk: "\<forall>q \<in> set skips_seq. call q cfg = Inr False"
  show "compound_do pf cfg tn nm (Inr rv) skips_seq (pre @ f # post)
               = (Raised (AssertionError
                            (''Unexpected success for '' @ [CHR 0x27] @ nm @ [CHR 0x27]
                             @ '' ('' @ join '' and '' ss @ '')'')),
                  [Called])"
    by (simp only: compound_do_returned [OF sk] es sum.case)
next
  assume pre: "\<forall>q \<in> set pre. call q cfg = Inr False" and f: "call f cfg = Inr True"
    and eq: "pre @ f # post = xs @ p # ys"
    and ss: "list_all2 (\<lambda>q s. as_string pf q cfg False = Inr s) xs ss"
    and p: "as_string pf p cfg False = Inl e"
  have "as_strings pf (xs @ p # ys) cfg False = Inl e"
    using ss p by (rule as_strings_raises)
  then have "as_strings pf (pre @ f # post) cfg False = Inl e"
    using eq by simp
  then show es: "expect_success pf cfg nm (pre @ f # post) = Inl e"
    using success_loop_first [OF pre f] by (simp add: expect_success_def)
  assume sk: "\<forall>q \<in> set skips_seq. call q cfg = Inr False"
  show "compound_do pf cfg tn nm (Inr rv) skips_seq (pre @ f # post) = (Raised e, [Called])"
    by (simp only: compound_do_returned [OF sk] es sum.case)
next
  assume pre: "\<forall>q \<in> set pre. call q cfg = Inr False" and f: "call f cfg = Inl e"
  show es: "expect_success pf cfg nm (pre @ f # post) = Inl e"
    using success_loop_raises [OF pre f] by (simp add: expect_success_def)
  assume sk: "\<forall>q \<in> set skips_seq. call q cfg = Inr False"
  show "compound_do pf cfg tn nm (Inr rv) skips_seq (pre @ f # post) = (Raised e, [Called])"
    by (simp only: compound_do_returned [OF sk] es sum.case)
qed

theorem unexpected_success_names_all_witness:
  "compound_do sample_formatter None ''test_a'' ''test_a'' (Inr (7 :: nat)) []
     [SpecPredicate ''sqlite'' None PNone None] = (Returned (Some 7), [Called])
   \<and> compound_do sample_formatter None ''test_a'' ''test_a'' (Inr (7 :: nat)) []
     [SpecPredicate ''sqlite'' None PNone None, BooleanPredicate True ''expected to fail'']
     = (Raised (AssertionError (''Unexpected success for '' @ [CHR 0x27] @ ''test_a''
                                @ [CHR 0x27] @ '' (sqlite and expected to fail)'')),
        [Called])
   \<and> compound_do sample_formatter None ''test_a'' ''test_a'' (Inr (7 :: nat)) []
     [BooleanPredicate True ''expected to fail'', BooleanPredicate False ''50%'']
     = (Raised (ValueError ''incomplete format''), [Called])
   \<and> compound_do sample_formatter None ''test_a'' ''test_a'' (Inr (7 :: nat)) []
     [SpecPredicate ''sqlite'' None PNone None,
      LambdaPredicate (\<lambda>cfg. Inl (ValueError ''no such table'')) ''custom function'']
     = (Raised (ValueError ''no such table''), [Called])"
proof -
  let ?sq = "SpecPredicate ''sqlite'' None PNone None"
  let ?b = "BooleanPredicate True ''expected to fail''"
  let ?h = "BooleanPredicate False ''50%''"
  let ?l = "LambdaPredicate (\<lambda>cfg. Inl (ValueError ''no such table'')) ''custom function''"
  have h0: "\<forall>q \<in> set ([] :: predicate list). call q None = Inr False" by simp
  have h1: "\<forall>f \<in> set [?sq]. call f None = Inr False"
    by (simp add: SpecPredicate_call_def)
  have h2: "call ?b None = Inr True" by simp
  have h3: "list_all2 (\<lambda>p s. as_string sample_formatter p None False = Inr s)
              ([?sq] @ ?b # []) [''sqlite'', ''expected to fail'']"
    by (simp add: format_description_def py_percent_def)
  have h4: "[] @ ?b # [?h] = [?b] @ ?h # []" by simp
  have h5: "list_all2 (\<lambda>q s. as_string sample_formatter q None False = Inr s)
              [?b] [''expected to fail'']"
    by (simp add: format_description_def py_percent_def)
  have h6: "as_string sample_formatter ?h None False = Inl (ValueError ''incomplete format'')"
    by (simp add: format_description_def py_percent_def)
  have h7: "call ?l None = Inl (ValueError ''no such table'')" by simp
  note A = unexpected_success_names_all
    [where pf = sample_formatter and cfg = None and nm = "''test_a''" and tn = "''test_a''"
       and skips_seq = "[]" and rv = "7 :: nat" and fails_seq = "[?sq]",
     THEN conjunct1, THEN mp, OF h1, THEN conjunct2, THEN mp, OF h0]
  note B = unexpected_success_names_all
    [where pf = sample_formatter and cfg = None and nm = "''test_a''" and tn = "''test_a''"
       and skips_seq = "[]" and rv = "7 :: nat" and pre = "[?sq]" and f = ?b and post = "[]"
       and ss = "[''sqlite'', ''expected to fail'']",
     THEN conjunct2, THEN conjunct1, THEN mp, OF h1, THEN mp, OF h2, THEN mp, OF h3,
     THEN conjunct2, THEN mp, OF h0]
  note C = unexpected_success_names_all
    [where pf = sample_formatter and cfg = None and nm = "''test_a''" and tn = "''test_a''"
       and skips_seq = "[]" and rv = "7 :: nat" and pre = "[]" and f = ?b and post = "[?h]"
       and xs = "[?b]" and p = ?h and ys = "[]" and ss = "[''expected to fail'']"
       and e = "ValueError ''incomplete format''",
     THEN conjunct2, THEN conjunct2, THEN conjunct1, THEN mp, OF h0, THEN mp, OF h2,
     THEN mp, OF h4, THEN mp, OF h5, THEN mp, OF h6, THEN conjunct2, THEN mp, OF h0]
  note D = unexpected_success_names_all
    [where pf = sample_formatter and cfg = None and nm = "''test_a''" and tn = "''test_a''"
       and skips_seq = "[]" and rv = "7 :: nat" and pre = "[?sq]" and f = ?l and post = "[]"
       and e = "ValueError ''no such table''",
     THEN conjunct2, THEN conjunct2, THEN conjunct2, THEN mp, OF h1, THEN mp, OF h7,
     THEN conjunct2, THEN mp, OF h0]
  from A B C D show ?thesis by simp
qed

section \<open>Empty descriptor lists\<close>

text \<open>
  C9, as stated, fails: \<open>db_spec\<close> without descriptors and \<open>only_on\<close> with an empty
  list return a predicate and a rule.
\<close>

theorem empty_descriptors_counterexample:
  "db_spec [] = Inr (OrPredicate [] None)
   \<and> only_on [] None
     = Inr \<lparr>fails = {}, skips = {NotPredicate (OrPredicate [] None) None}, tags = {}\<rparr>"
  by (simp add: db_spec_def only_on_def only_if_def skip_if_def truthy_def compound_init_def)

text \<open>
  C9, amended. Of the builder functions, the direct evaluator \<open>against\<close> alone rejects
  an empty list of descriptors, with an assertion failure when it is called; on a list
  that is not empty it evaluates the disjunction of the normalised descriptors. The
  others return without raising: \<open>db_spec\<close> without descriptors returns the empty
  disjunction; \<open>only_on\<close> with an empty list and \<open>fails_on_everything_except\<close> without
  descriptors return a rule whose one skip-predicate, respectively fail-predicate, is
  the negation of the empty disjunction; \<open>skip_if\<close>, \<open>skip\<close>, \<open>fails_if\<close>,
  \<open>fails_on\<close>, \<open>only_if\<close> and \<open>succeeds_if\<close>, given an empty list as their
  descriptor, return a rule built on the empty disjunction or on its negation. The empty
  disjunction matches no context, and its negation matches every context.
\<close>

theorem empty_descriptors:
  "against cfg [] = Inl (AssertionError ''no queries sent!'')
   \<and> against cfg (q # qs)
     = (case as_predicates (q # qs) None of
          Inl e \<Rightarrow> Inl e
        | Inr ps \<Rightarrow> call_any ps cfg)
   \<and> db_spec [] = Inr (OrPredicate [] None)
   \<and> only_on [] reason
     = Inr \<lparr>fails = {}, skips = {NotPredicate (OrPredicate [] None) None}, tags = {}\<rparr>
   \<and> fails_on_everything_except []
     = Inr \<lparr>fails = {NotPredicate (OrPredicate [] None) None}, skips = {}, tags = {}\<rparr>
   \<and> as_predicate (DList []) reason = Inr (OrPredicate [] reason)
   \<and> skip_if (DList []) reason
     = Inr \<lparr>fails = {}, skips = {OrPredicate [] reason}, tags = {}\<rparr>
   \<and> skip (DList []) reason
     = Inr \<lparr>fails = {}, skips = {OrPredicate [] reason}, tags = {}\<rparr>
   \<and> fails_if (DList []) reason
     = Inr \<lparr>fails = {OrPredicate [] reason}, skips = {}, tags = {}\<rparr>
   \<and> fails_on (DList []) reason
     = Inr \<lparr>fails = {OrPredicate [] reason}, skips = {}, tags = {}\<rparr>
   \<and> only_if (DList []) reason
     = Inr \<lparr>fails = {},
            skips = {NotPredicate (OrPredicate [] None) (if truthy reason then reason else None)},
            tags = {}\<rparr>
   \<and> succeeds_if (DList []) reason
     = Inr \<lparr>fails = {NotPredicate (OrPredicate [] None)
                        (if truthy reason then reason else None)},
            skips = {}, tags = {}\<rparr>
   \<and> call (OrPredicate [] ds) cfg = Inr False
   \<and> call (NotPredicate (OrPredicate [] ds) ds') cfg = Inr True"
  by (simp add: against_def db_spec_def only_on_def fails_on_everything_except_def
        only_if_def succeeds_if_def skip_if_def fails_if_def skip_def fails_on_def
        compound_init_def split: sum.splits)

theorem empty_descriptors_witness:
  "against None [] = Inl (AssertionError ''no queries sent!'')
   \<and> against None [DString ''sqlite'', DString ''pg >= 9.0''] = Inr False
   \<and> only_if (DList []) (Some ''never'')
     = Inr \<lparr>fails = {}, skips = {NotPredicate (OrPredicate [] None) (Some ''never'')},
            tags = {}\<rparr>"
  using empty_descriptors
    [where cfg = None and q = "DString ''sqlite''" and qs = "[DString ''pg >= 9.0'']"
       and reason = "Some ''never''" and ds = None and ds' = None]
  by (simp add: as_predicate_string_def match_tokens_def is_word_def is_space_def
        is_digit_def match_version_def py_int_def SpecPredicate_init_def
        SpecPredicate_call_def truthy_def)

end
